theory Spec2Isabelle
  imports Main "HOL-Library.AList"
begin

section \<open>JavaScript values\<close>

text \<open>
  The scripts handle parsed JSON and the results of reading properties of it. A value is
  one of the following. \<open>JNum\<close> carries an integral number (exact arithmetic; fractions
  and magnitudes beyond the safe integer range are outside this development). A string
  is a list of code units below 256, so \<open>length\<close> is the \<open>.length\<close> of the source for
  Latin-1 text. \<open>JObj\<close> lists the own properties of a parsed object; the first entry of
  a name is the one a read finds.
\<close>

datatype jsval =
    JUndefined
  | JNull
  | JBool bool
  | JNum int
  | JNaN
  | JStr string
  | JArr "jsval list"
  | JObj "(string \<times> jsval) list"

text \<open>An exception value: the constructor's name and the \<open>message\<close> property.\<close>

datatype js_error = JsError (err_name: string) (message: string)

text \<open>Truthiness, as \<open>if (v)\<close>, \<open>v || w\<close> and \<open>!!v\<close> test it.\<close>

fun truthy :: "jsval \<Rightarrow> bool" where
  "truthy JUndefined = False"
| "truthy JNull = False"
| "truthy (JBool b) = b"
| "truthy (JNum n) = (n \<noteq> 0)"
| "truthy JNaN = False"
| "truthy (JStr s) = (s \<noteq> [])"
| "truthy (JArr xs) = True"
| "truthy (JObj kvs) = True"

text \<open>\<open>a || b\<close> on values already computed.\<close>

definition js_or :: "jsval \<Rightarrow> jsval \<Rightarrow> jsval" where
  "js_or a b = (if truthy a then a else b)"

text \<open>Decimal digits of a natural number, and of an integer.\<close>

fun digits :: "nat \<Rightarrow> string" where
  "digits n = (if n < 10 then [''0123456789'' ! n]
               else digits (n div 10) @ [''0123456789'' ! (n mod 10)])"

declare digits.simps [simp del]

definition int_to_string :: "int \<Rightarrow> string" where
  "int_to_string i = (if i < 0 then CHR ''-'' # digits (nat (- i)) else digits (nat i))"

text \<open>\<open>xs.join(sep)\<close> on strings already converted.\<close>

fun join :: "string \<Rightarrow> string list \<Rightarrow> string" where
  "join sep [] = []"
| "join sep [x] = x"
| "join sep (x # y # ys) = x @ sep @ join sep (y # ys)"

text \<open>
  The abstract operation ToString, as a template literal, \<open>new Error(v)\<close> and
  \<open>localStorage.setItem\<close> apply it. An array joins its elements with a comma, an
  undefined or null element giving the empty string. The string it gives is the
  engine's for strings, booleans, \<open>null\<close>, \<open>undefined\<close>, integers in the safe range
  (the engine prints a number from \<open>1e21\<close> on with an exponent), and for the arrays and
  objects that \<open>convertible\<close> admits below.
\<close>

fun to_string :: "jsval \<Rightarrow> string" where
  "to_string JUndefined = ''undefined''"
| "to_string JNull = ''null''"
| "to_string (JBool b) = (if b then ''true'' else ''false'')"
| "to_string (JNum n) = int_to_string n"
| "to_string JNaN = ''NaN''"
| "to_string (JStr s) = s"
| "to_string (JArr xs) =
     join '','' (map (\<lambda>x. if x = JUndefined \<or> x = JNull then [] else to_string x) xs)"
| "to_string (JObj kvs) = ''[object Object]''"

text \<open>
  Whether ToString returns. A parsed object with an own property \<open>toString\<close> hides the
  method of the prototype behind a value that cannot be called, and the conversion
  throws a TypeError; so does an array with such an element.
\<close>

fun convertible :: "jsval \<Rightarrow> bool" where
  "convertible (JObj kvs) = (map_of kvs ''toString'' = None)"
| "convertible (JArr xs) = list_all convertible xs"
| "convertible v = True"

definition cannot_convert :: js_error where
  "cannot_convert = JsError ''TypeError'' ''Cannot convert object to primitive value''"

text \<open>
  Reading a data property \<open>v.k\<close>. The base \<open>undefined\<close> or \<open>null\<close> throws a
  TypeError; an object gives its own property or \<open>undefined\<close>; an array and a string
  have \<open>length\<close>. The names the scripts read are data names (\<open>error\<close>, \<open>detail\<close>,
  \<open>holdings_count\<close>, ...), none of them an index or a member of a prototype. The
  wording of a TypeError is the engine's own; the one here follows V8, without its
  quotation marks, and stands for whatever the engine says.
\<close>

definition cannot_read :: "string \<Rightarrow> string \<Rightarrow> js_error" where
  "cannot_read base k =
     JsError ''TypeError'' (''Cannot read properties of '' @ base @ '' (reading '' @ k @ '')'')"

fun prop_of :: "jsval \<Rightarrow> string \<Rightarrow> js_error + jsval" where
  "prop_of JUndefined k = Inl (cannot_read ''undefined'' k)"
| "prop_of JNull k = Inl (cannot_read ''null'' k)"
| "prop_of (JObj kvs) k = Inr (case map_of kvs k of None \<Rightarrow> JUndefined | Some v \<Rightarrow> v)"
| "prop_of (JArr xs) k = Inr (if k = ''length'' then JNum (int (length xs)) else JUndefined)"
| "prop_of (JStr s) k = Inr (if k = ''length'' then JNum (int (length s)) else JUndefined)"
| "prop_of v k = Inr JUndefined"

text \<open>\<open>s.startsWith(p)\<close> and \<open>s.includes(p)\<close>.\<close>

fun starts_with :: "string \<Rightarrow> string \<Rightarrow> bool" where
  "starts_with s [] = True"
| "starts_with [] (p # ps) = False"
| "starts_with (c # cs) (p # ps) = (c = p \<and> starts_with cs ps)"

fun str_includes :: "string \<Rightarrow> string \<Rightarrow> bool" where
  "str_includes [] p = (p = [])"
| "str_includes (c # cs) p = (starts_with (c # cs) p \<or> str_includes cs p)"

section \<open>The page: storage, requests, events\<close>

text \<open>
  A request as \<open>fetch(url, {...options, headers})\<close> receives it. The headers object
  keeps its keys in insertion order; the body is the value that \<open>JSON.stringify\<close>
  serialised.
\<close>

record request =
  url :: string
  req_method :: "string option"
  req_headers :: "(string \<times> string) list"
  req_body :: "jsval option"

text \<open>
  A response: the status, and what \<open>response.json()\<close> settles to (the parsed body, or
  the error of a body that is not JSON).
\<close>

record response =
  status :: nat
  json :: "js_error + jsval"

definition ok :: "response \<Rightarrow> bool" where
  "ok r = (200 \<le> status r \<and> status r \<le> 299)"

text \<open>
  The network: what \<open>fetch\<close> settles to for a request, a rejection (no connectivity)
  or a response. Every theorem below holds for any network.
\<close>

type_synonym network = "request \<Rightarrow> js_error + response"

text \<open>What the page does that is visible outside it, in the order it happens.\<close>

datatype event =
    Fetch request
  | Navigate string
  | ConsoleError string js_error
  | Alert string

text \<open>
  An element of the document. \<open>content\<close> is what \<open>textContent\<close> or \<open>innerHTML\<close>
  last stored: plain text, or one of the scripts' templates with the data it
  interpolates (the markup itself is not modelled). \<open>owner\<close> names the element whose
  \<open>innerHTML\<close> created this one, if a script did.
\<close>

datatype view =
    UserInfoView string string
  | PortfoliosErrorView
  | NoPortfoliosView
  | PortfolioCardsView "jsval list"
  | HoldingsErrorView
  | NoCoinsFoundView
  | SearchResultsView "jsval list"
  | RenderedView string

datatype content = Text string | Html view

record element =
  eid :: "string option"
  content :: content
  classes :: "string list"
  el_value :: string
  owner :: "string option"

text \<open>A callback waiting in the timer table of the window.\<close>

datatype callback = SearchCoins string | ShowLoginForm string

record timer =
  timer_id :: nat
  due :: nat
  callback :: callback

text \<open>
  The state every script shares: \<open>localStorage\<close>, the document in document order, the
  events so far, the pending timers, the clock in milliseconds, the next timer handle
  and the listeners registered (target and event type).
\<close>

record world =
  storage :: "string \<rightharpoonup> string"
  document :: "element list"
  events :: "event list"
  timers :: "timer list"
  now :: nat
  next_timer :: nat
  listeners :: "(string \<times> string) list"

definition emit :: "event \<Rightarrow> 'a world_scheme \<Rightarrow> 'a world_scheme" where
  "emit e w = w\<lparr>events := events w @ [e]\<rparr>"

text \<open>\<open>window.location.href = u\<close>: the navigation is recorded; the script goes on.\<close>

definition navigate :: "string \<Rightarrow> 'a world_scheme \<Rightarrow> 'a world_scheme" where
  "navigate u w = emit (Navigate u) w"

definition console_error :: "string \<Rightarrow> js_error \<Rightarrow> 'a world_scheme \<Rightarrow> 'a world_scheme" where
  "console_error label e w = emit (ConsoleError label e) w"

text \<open>The requests issued, in order.\<close>

fun fetches :: "event list \<Rightarrow> request list" where
  "fetches [] = []"
| "fetches (Fetch r # es) = r # fetches es"
| "fetches (e # es) = fetches es"

section \<open>config.js\<close>

definition API_BASE_URL :: string where
  "API_BASE_URL = ''http://localhost:8000''"

definition LOGIN :: string where
  "LOGIN = API_BASE_URL @ ''/api/auth/login''"

definition REGISTER :: string where
  "REGISTER = API_BASE_URL @ ''/api/auth/register''"

definition ME :: string where
  "ME = API_BASE_URL @ ''/api/auth/me''"

definition PORTFOLIOS :: string where
  "PORTFOLIOS = API_BASE_URL @ ''/api/portfolio''"

definition PORTFOLIO_BY_ID :: "jsval \<Rightarrow> string" where
  "PORTFOLIO_BY_ID i = API_BASE_URL @ ''/api/portfolio/'' @ to_string i"

definition PORTFOLIO_HOLDINGS :: "jsval \<Rightarrow> string" where
  "PORTFOLIO_HOLDINGS i = API_BASE_URL @ ''/api/portfolio/'' @ to_string i @ ''/holdings''"

definition PORTFOLIO_VALUATION :: "jsval \<Rightarrow> string" where
  "PORTFOLIO_VALUATION i = API_BASE_URL @ ''/api/portfolio/'' @ to_string i @ ''/valuation''"

definition COIN_SEARCH :: string where
  "COIN_SEARCH = API_BASE_URL @ ''/api/coins/search''"

definition TOKEN_KEY :: string where
  "TOKEN_KEY = ''access_token''"

section \<open>api.js\<close>

text \<open>
  The options object of \<open>apiCall\<close>: \<open>skipAuth\<close> is the truthiness of the property,
  false when it is unset.
\<close>

record options =
  opt_method :: "string option"
  opt_body :: "jsval option"
  opt_headers :: "(string \<times> string) list"
  skipAuth :: bool

definition no_options :: options where
  "no_options = \<lparr>opt_method = None, opt_body = None, opt_headers = [], skipAuth = False\<rparr>"

text \<open>
  \<open>{'Content-Type': 'application/json', ...options.headers}\<close>, then the assignment
  of \<open>Authorization\<close> under \<open>token && !options.skipAuth\<close>. \<open>getItem\<close> gives a string
  or null, so the token is truthy when it is stored and not empty.
\<close>

definition build_headers :: "'a world_scheme \<Rightarrow> options \<Rightarrow> (string \<times> string) list" where
  "build_headers w opts =
     (let headers = fold (\<lambda>(k, v). AList.update k v) (opt_headers opts)
                      [(''Content-Type'', ''application/json'')]
      in case storage w TOKEN_KEY of
           None \<Rightarrow> headers
         | Some token \<Rightarrow>
             if token \<noteq> [] \<and> \<not> skipAuth opts
             then AList.update ''Authorization'' (''Bearer '' @ token) headers
             else headers)"

definition make_request :: "'a world_scheme \<Rightarrow> string \<Rightarrow> options \<Rightarrow> request" where
  "make_request w u opts =
     \<lparr>url = u, req_method = opt_method opts, req_headers = build_headers w opts,
      req_body = opt_body opts\<rparr>"

text \<open>\<open>data.error || data.detail || 'Request failed'\<close>, the argument of \<open>new Error\<close>.\<close>

definition failure_text :: "jsval \<Rightarrow> js_error + jsval" where
  "failure_text data =
     (case prop_of data ''error'' of
        Inl e \<Rightarrow> Inl e
      | Inr a \<Rightarrow>
          if truthy a then Inr a
          else (case prop_of data ''detail'' of
                  Inl e \<Rightarrow> Inl e
                | Inr b \<Rightarrow> if truthy b then Inr b else Inr (JStr ''Request failed'')))"

text \<open>
  The body of the \<open>try\<close> block of \<open>apiCall\<close>, after the request is built.
  \<open>new Error(m)\<close> converts \<open>m\<close> to a string, and throws the TypeError of the
  conversion when there is none.
\<close>

definition apiCall_try :: "network \<Rightarrow> request \<Rightarrow> js_error + jsval" where
  "apiCall_try net rq =
     (case net rq of
        Inl e \<Rightarrow> Inl e
      | Inr r \<Rightarrow>
          (case json r of
             Inl e \<Rightarrow> Inl e
           | Inr data \<Rightarrow>
               if \<not> ok r
               then (case failure_text data of
                       Inl e \<Rightarrow> Inl e
                     | Inr m \<Rightarrow>
                         if convertible m then Inl (JsError ''Error'' (to_string m))
                         else Inl cannot_convert)
               else Inr data))"

text \<open>
  \<open>apiCall(url, options)\<close>: the request is issued; a failure is logged and thrown
  again.
\<close>

definition apiCall ::
  "network \<Rightarrow> string \<Rightarrow> options \<Rightarrow> 'a world_scheme \<Rightarrow> (js_error + jsval) \<times> 'a world_scheme" where
  "apiCall net u opts w =
     (let rq = make_request w u opts; w1 = emit (Fetch rq) w
      in case apiCall_try net rq of
           Inl e \<Rightarrow> (Inl e, console_error ''API Error:'' e w1)
         | Inr data \<Rightarrow> (Inr data, w1))"

definition setItem :: "string \<Rightarrow> jsval \<Rightarrow> 'a world_scheme \<Rightarrow> 'a world_scheme" where
  "setItem k v w = w\<lparr>storage := (storage w)(k \<mapsto> to_string v)\<rparr>"

definition removeItem :: "string \<Rightarrow> 'a world_scheme \<Rightarrow> 'a world_scheme" where
  "removeItem k w = w\<lparr>storage := (storage w)(k := None)\<rparr>"

definition saveToken :: "jsval \<Rightarrow> jsval \<Rightarrow> 'a world_scheme \<Rightarrow> 'a world_scheme" where
  "saveToken token refreshToken w =
     (let w1 = setItem TOKEN_KEY token w
      in if truthy refreshToken then setItem ''refresh_token'' refreshToken w1 else w1)"

definition getToken :: "'a world_scheme \<Rightarrow> string option" where
  "getToken w = storage w TOKEN_KEY"

definition removeTokens :: "'a world_scheme \<Rightarrow> 'a world_scheme" where
  "removeTokens w = removeItem ''refresh_token'' (removeItem TOKEN_KEY w)"

text \<open>\<open>!!getToken()\<close>.\<close>

definition isAuthenticated :: "'a world_scheme \<Rightarrow> bool" where
  "isAuthenticated w = (case getToken w of None \<Rightarrow> False | Some t \<Rightarrow> t \<noteq> [])"

section \<open>Control flow: results, exceptions, try and catch\<close>

text \<open>
  A piece of script run to completion: from a state it gives a value or a thrown error,
  and the state it leaves. An \<open>await\<close> is a call whose result is taken when the promise
  settles, so an \<open>async\<close> function is the sequence of its steps.
\<close>

type_synonym ('a, 'w) js = "'w \<Rightarrow> (js_error + 'a) \<times> 'w"

definition js_return :: "'a \<Rightarrow> ('a, 'w) js" where
  "js_return a w = (Inr a, w)"

definition js_throw :: "js_error \<Rightarrow> ('a, 'w) js" where
  "js_throw e w = (Inl e, w)"

definition js_bind :: "('a, 'w) js \<Rightarrow> ('a \<Rightarrow> ('b, 'w) js) \<Rightarrow> ('b, 'w) js" where
  "js_bind m f w = (case m w of (Inl e, w1) \<Rightarrow> (Inl e, w1) | (Inr a, w1) \<Rightarrow> f a w1)"

definition js_try :: "('a, 'w) js \<Rightarrow> (js_error \<Rightarrow> ('a, 'w) js) \<Rightarrow> ('a, 'w) js" where
  "js_try m h w = (case m w of (Inl e, w1) \<Rightarrow> h e w1 | (Inr a, w1) \<Rightarrow> (Inr a, w1))"

text \<open>A statement that cannot throw, and an expression that may.\<close>

definition js_do :: "('w \<Rightarrow> 'w) \<Rightarrow> (unit, 'w) js" where
  "js_do f w = (Inr (), f w)"

definition js_eval :: "js_error + 'a \<Rightarrow> ('a, 'w) js" where
  "js_eval r w = (r, w)"

section \<open>The document\<close>

definition has_id :: "string \<Rightarrow> element \<Rightarrow> bool" where
  "has_id i e = (eid e = Some i)"

text \<open>\<open>document.getElementById(i)\<close>: the first element of that id, or null.\<close>

definition getElementById :: "string \<Rightarrow> 'a world_scheme \<Rightarrow> element option" where
  "getElementById i w = find (has_id i) (document w)"

text \<open>\<open>document.querySelector('.c')\<close>: the first element of that class, or null.\<close>

definition querySelector_class :: "string \<Rightarrow> 'a world_scheme \<Rightarrow> element option" where
  "querySelector_class c w = find (\<lambda>e. c \<in> set (classes e)) (document w)"

fun update_first :: "('a \<Rightarrow> bool) \<Rightarrow> ('a \<Rightarrow> 'a) \<Rightarrow> 'a list \<Rightarrow> 'a list" where
  "update_first P f [] = []"
| "update_first P f (x # xs) = (if P x then f x # xs else x # update_first P f xs)"

definition cannot_set :: "string \<Rightarrow> js_error" where
  "cannot_set k = JsError ''TypeError'' (''Cannot set properties of null (setting '' @ k @ '')'')"

text \<open>
  \<open>document.getElementById(i).k = ...\<close>, for a property \<open>k\<close> of the element itself:
  a TypeError when there is no such element.
\<close>

definition set_property :: "string \<Rightarrow> string \<Rightarrow> (element \<Rightarrow> element) \<Rightarrow> (unit, 'a world_scheme) js" where
  "set_property i k f w =
     (case getElementById i w of
        None \<Rightarrow> (Inl (cannot_set k), w)
      | Some e \<Rightarrow> (Inr (), w\<lparr>document := update_first (has_id i) f (document w)\<rparr>))"

text \<open>
  \<open>el.textContent = v\<close>: the attribute is a nullable string, so \<open>undefined\<close> and
  \<open>null\<close> store the empty text. The elements whose text the scripts set hold text
  only.
\<close>

definition text_of :: "jsval \<Rightarrow> string" where
  "text_of v = (if v = JUndefined \<or> v = JNull then [] else to_string v)"

definition set_textContent :: "string \<Rightarrow> jsval \<Rightarrow> (unit, 'a world_scheme) js" where
  "set_textContent i v = set_property i ''textContent'' (\<lambda>e. e\<lparr>content := Text (text_of v)\<rparr>)"

text \<open>\<open>el.className = 'a b'\<close>, given as the list of class names.\<close>

definition set_className :: "string \<Rightarrow> string list \<Rightarrow> (unit, 'a world_scheme) js" where
  "set_className i cs = set_property i ''className'' (\<lambda>e. e\<lparr>classes := cs\<rparr>)"

definition set_value :: "string \<Rightarrow> string \<Rightarrow> (unit, 'a world_scheme) js" where
  "set_value i v = set_property i ''value'' (\<lambda>e. e\<lparr>el_value := v\<rparr>)"

text \<open>
  \<open>el.innerHTML = markup\<close>: the elements the previous markup of \<open>el\<close> created leave
  the document, and those of the new markup follow \<open>el\<close> in document order.
\<close>

fun render_first :: "string \<Rightarrow> content \<Rightarrow> element list \<Rightarrow> element list \<Rightarrow> element list" where
  "render_first i c kids [] = []"
| "render_first i c kids (e # es) =
     (if has_id i e then e\<lparr>content := c\<rparr> # kids @ es else e # render_first i c kids es)"

definition set_innerHTML :: "string \<Rightarrow> view \<Rightarrow> element list \<Rightarrow> (unit, 'a world_scheme) js" where
  "set_innerHTML i v kids w =
     (case getElementById i w of
        None \<Rightarrow> (Inl (cannot_set ''innerHTML''), w)
      | Some e \<Rightarrow>
          (Inr (), w\<lparr>document :=
             render_first i (Html v) kids (filter (\<lambda>x. owner x \<noteq> Some i) (document w))\<rparr>))"

text \<open>\<open>document.getElementById(i).value\<close>.\<close>

definition input_value :: "string \<Rightarrow> (string, 'a world_scheme) js" where
  "input_value i w =
     (case getElementById i w of
        None \<Rightarrow> (Inl (cannot_read ''null'' ''value''), w)
      | Some e \<Rightarrow> (Inr (el_value e), w))"

text \<open>\<open>document.getElementById(i).classList.add(c)\<close> and \<open>.remove(c)\<close>.\<close>

definition classList_add :: "string \<Rightarrow> string \<Rightarrow> (unit, 'a world_scheme) js" where
  "classList_add i c w =
     (case getElementById i w of
        None \<Rightarrow> (Inl (cannot_read ''null'' ''classList''), w)
      | Some e \<Rightarrow>
          (Inr (), w\<lparr>document :=
             update_first (has_id i)
               (\<lambda>x. x\<lparr>classes := (if c \<in> set (classes x) then classes x else classes x @ [c])\<rparr>)
               (document w)\<rparr>))"

definition classList_remove :: "string \<Rightarrow> string \<Rightarrow> (unit, 'a world_scheme) js" where
  "classList_remove i c w =
     (case getElementById i w of
        None \<Rightarrow> (Inl (cannot_read ''null'' ''classList''), w)
      | Some e \<Rightarrow>
          (Inr (), w\<lparr>document :=
             update_first (has_id i) (\<lambda>x. x\<lparr>classes := removeAll c (classes x)\<rparr>) (document w)\<rparr>))"

text \<open>\<open>document.getElementById(i).addEventListener(ev, ...)\<close>.\<close>

definition addEventListener :: "string \<Rightarrow> string \<Rightarrow> (unit, 'a world_scheme) js" where
  "addEventListener i ev w =
     (case getElementById i w of
        None \<Rightarrow> (Inl (cannot_read ''null'' ''addEventListener''), w)
      | Some e \<Rightarrow> (Inr (), w\<lparr>listeners := listeners w @ [(i, ev)]\<rparr>))"

section \<open>Timers\<close>

text \<open>\<open>clearTimeout(h)\<close>, where \<open>h\<close> is a handle or \<open>undefined\<close>, and \<open>setTimeout\<close>.\<close>

definition clearTimeout :: "nat option \<Rightarrow> 'a world_scheme \<Rightarrow> 'a world_scheme" where
  "clearTimeout h w =
     (case h of None \<Rightarrow> w | Some i \<Rightarrow> w\<lparr>timers := filter (\<lambda>t. timer_id t \<noteq> i) (timers w)\<rparr>)"

definition setTimeout :: "callback \<Rightarrow> nat \<Rightarrow> 'a world_scheme \<Rightarrow> nat \<times> 'a world_scheme" where
  "setTimeout cb delay w =
     (next_timer w,
      w\<lparr>timers := timers w @ [\<lparr>timer_id = next_timer w, due = now w + delay, callback = cb\<rparr>],
        next_timer := Suc (next_timer w)\<rparr>)"

section \<open>dashboard.js\<close>

text \<open>The module variables \<open>portfolios\<close> and \<open>currentUser\<close>.\<close>

record dashboard = world +
  portfolios :: jsval
  currentUser :: jsval

text \<open>
  \<open>a + b\<close>, for operands that convert: an array or an object becomes its string; with
  a string on either side the strings are joined; otherwise the numbers are added,
  \<open>undefined\<close> and NaN giving NaN. The sum of two integers is the engine's as long as
  the operands and the sum are in the safe range, up to \<open>2^53 - 1\<close> in magnitude: beyond
  it the engine rounds to the nearest double.
\<close>

fun stringlike :: "jsval \<Rightarrow> bool" where
  "stringlike (JStr s) = True"
| "stringlike (JArr xs) = True"
| "stringlike (JObj kvs) = True"
| "stringlike v = False"

fun to_number :: "jsval \<Rightarrow> int option" where
  "to_number JNull = Some 0"
| "to_number (JBool b) = Some (if b then 1 else 0)"
| "to_number (JNum n) = Some n"
| "to_number v = None"

definition js_add :: "jsval \<Rightarrow> jsval \<Rightarrow> jsval" where
  "js_add a b =
     (if stringlike a \<or> stringlike b then JStr (to_string a @ to_string b)
      else (case to_number a of
              None \<Rightarrow> JNaN
            | Some x \<Rightarrow> (case to_number b of None \<Rightarrow> JNaN | Some y \<Rightarrow> JNum (x + y))))"

text \<open>
  \<open>portfolios.reduce((sum, p) => sum + p.holdings_count, 0)\<close>. The addition throws
  when an operand does not convert.
\<close>

fun reduce_holdings :: "jsval \<Rightarrow> jsval list \<Rightarrow> js_error + jsval" where
  "reduce_holdings acc [] = Inr acc"
| "reduce_holdings acc (p # ps) =
     (case prop_of p ''holdings_count'' of
        Inl e \<Rightarrow> Inl e
      | Inr c \<Rightarrow>
          if convertible acc \<and> convertible c then reduce_holdings (js_add acc c) ps
          else Inl cannot_convert)"

definition not_a_function :: "string \<Rightarrow> js_error" where
  "not_a_function f = JsError ''TypeError'' (f @ '' is not a function'')"

fun totalCoins :: "jsval \<Rightarrow> js_error + jsval" where
  "totalCoins (JArr ps) = reduce_holdings (JNum 0) ps"
| "totalCoins JUndefined = Inl (cannot_read ''undefined'' ''reduce'')"
| "totalCoins JNull = Inl (cannot_read ''null'' ''reduce'')"
| "totalCoins v = Inl (not_a_function ''portfolios.reduce'')"

definition updateDashboardStats :: "(unit, 'a dashboard_scheme) js" where
  "updateDashboardStats w =
     js_bind (js_eval (prop_of (portfolios w) ''length'')) (\<lambda>totalPortfolios.
     js_bind (js_eval (totalCoins (portfolios w))) (\<lambda>coins.
     js_bind (set_textContent ''portfolioCount'' totalPortfolios) (\<lambda>_.
     js_bind (set_textContent ''coinCount'' coins) (\<lambda>_.
     js_bind (set_textContent ''totalValue'' (JStr ''$0.00'')) (\<lambda>_.
     set_textContent ''totalProfit'' (JStr ''$0.00'')))))) w"

text \<open>
  \<open>value.toLocaleString('en-US', {minimumFractionDigits: 2, maximumFractionDigits: 2})\<close>
  for a receiver that is truthy or \<open>0\<close>: a number is grouped by thousands with two
  fraction digits, a string is itself, an array formats its elements.
\<close>

fun commas :: "string \<Rightarrow> string" where
  "commas (a # b # c # d # ds) = a # b # c # CHR '','' # commas (d # ds)"
| "commas ds = ds"

definition usd :: "int \<Rightarrow> string" where
  "usd n = (if n < 0 then ''-'' else []) @ rev (commas (rev (digits (nat \<bar>n\<bar>)))) @ ''.00''"

fun toLocaleString :: "jsval \<Rightarrow> string" where
  "toLocaleString (JNum n) = usd n"
| "toLocaleString (JArr xs) =
     join '','' (map (\<lambda>x. if x = JUndefined \<or> x = JNull then [] else toLocaleString x) xs)"
| "toLocaleString v = to_string v"

text \<open>The element that shows a portfolio's value: \<open>`portfolio-value-${portfolioId}`\<close>.\<close>

definition value_id :: "jsval \<Rightarrow> string" where
  "value_id portfolioId = ''portfolio-value-'' @ to_string portfolioId"

text \<open>
  \<open>loadPortfolioValuation\<close>: what the \<open>try\<close> block does with the valuation once the
  call has returned, the \<open>catch\<close> block, and the function.
\<close>

definition valuation_loaded :: "jsval \<Rightarrow> jsval \<Rightarrow> (unit, 'a world_scheme) js" where
  "valuation_loaded portfolioId valuation w =
     (case getElementById (value_id portfolioId) w of
        None \<Rightarrow> (Inr (), w)
      | Some valueEl \<Rightarrow>
          js_bind (js_eval (prop_of valuation ''total_value_usd'')) (\<lambda>total.
            set_textContent (value_id portfolioId)
              (JStr (''$'' @ toLocaleString (js_or total (JNum 0))))) w)"

definition valuation_failed :: "jsval \<Rightarrow> js_error \<Rightarrow> (unit, 'a world_scheme) js" where
  "valuation_failed portfolioId error =
     js_bind
       (js_do (console_error
          (''Error loading valuation for portfolio '' @ to_string portfolioId @ '':'') error))
       (\<lambda>_ w.
          case getElementById (value_id portfolioId) w of
            None \<Rightarrow> (Inr (), w)
          | Some valueEl \<Rightarrow> set_textContent (value_id portfolioId) (JStr ''$0.00'') w)"

definition loadPortfolioValuation :: "network \<Rightarrow> jsval \<Rightarrow> (unit, 'a world_scheme) js" where
  "loadPortfolioValuation net portfolioId =
     js_try
       (js_bind (apiCall net (PORTFOLIO_VALUATION portfolioId) no_options)
          (valuation_loaded portfolioId))
       (valuation_failed portfolioId)"

text \<open>\<open>xs.map(x => ... x.k ...)\<close>: the reads of \<open>k\<close>, the first failure thrown.\<close>

fun each_prop :: "string \<Rightarrow> jsval list \<Rightarrow> js_error + jsval list" where
  "each_prop k [] = Inr []"
| "each_prop k (p # ps) =
     (case prop_of p k of
        Inl e \<Rightarrow> Inl e
      | Inr v \<Rightarrow> (case each_prop k ps of Inl e \<Rightarrow> Inl e | Inr vs \<Rightarrow> Inr (v # vs)))"

definition value_element :: "jsval \<Rightarrow> element" where
  "value_element portfolioId =
     \<lparr>eid = Some (value_id portfolioId), content = Text ''Loading...'',
      classes = [''portfolio-value''], el_value = [], owner = Some ''portfoliosList''\<rparr>"

text \<open>
  \<open>portfolios.forEach(portfolio => loadPortfolioValuation(portfolio.id))\<close>. The calls
  are not awaited; no call throws, and each is run here to completion in the order of
  the list.
\<close>

fun load_valuations :: "network \<Rightarrow> jsval list \<Rightarrow> 'a world_scheme \<Rightarrow> 'a world_scheme" where
  "load_valuations net [] w = w"
| "load_valuations net (i # ids) w = load_valuations net ids (snd (loadPortfolioValuation net i w))"

definition renderPortfolios :: "network \<Rightarrow> (unit, 'a dashboard_scheme) js" where
  "renderPortfolios net w =
     js_bind (js_eval (prop_of (portfolios w) ''length'')) (\<lambda>n.
       if n = JNum 0 then set_innerHTML ''portfoliosList'' NoPortfoliosView []
       else (case portfolios w of
               JArr ps \<Rightarrow>
                 js_bind (js_eval (each_prop ''id'' ps)) (\<lambda>ids.
                 js_bind (set_innerHTML ''portfoliosList'' (PortfolioCardsView ps)
                            (map value_element ids)) (\<lambda>_.
                 js_do (load_valuations net ids)))
             | _ \<Rightarrow> js_throw (not_a_function ''portfolios.map''))) w"

definition dashboard_loadUserInfo :: "network \<Rightarrow> (unit, 'a dashboard_scheme) js" where
  "dashboard_loadUserInfo net =
     js_try
       (js_bind (apiCall net ME no_options) (\<lambda>user.
        js_bind (js_do (\<lambda>w. w\<lparr>currentUser := user\<rparr>)) (\<lambda>_.
        js_bind (js_eval (prop_of user ''username'')) (\<lambda>username.
        js_bind (js_eval (prop_of user ''email'')) (\<lambda>email.
        set_innerHTML ''userInfo'' (UserInfoView (to_string username) (to_string email)) [])))))
       (\<lambda>error. js_do (console_error ''Error loading user info:'' error))"

definition loadPortfolios :: "network \<Rightarrow> (unit, 'a dashboard_scheme) js" where
  "loadPortfolios net =
     js_try
       (js_bind (apiCall net PORTFOLIOS no_options) (\<lambda>data.
        js_bind (js_do (\<lambda>w. w\<lparr>portfolios := data\<rparr>)) (\<lambda>_.
        js_bind updateDashboardStats (\<lambda>_.
        renderPortfolios net))))
       (\<lambda>error.
          js_bind (js_do (console_error ''Error loading portfolios:'' error)) (\<lambda>_.
          set_innerHTML ''portfoliosList'' PortfoliosErrorView []))"

text \<open>\<open>document.querySelector('.close-modal').addEventListener('click', ...)\<close>.\<close>

definition close_modal_listener :: "(unit, 'a world_scheme) js" where
  "close_modal_listener w =
     (case querySelector_class ''close-modal'' w of
        None \<Rightarrow> (Inl (cannot_read ''null'' ''addEventListener''), w)
      | Some e \<Rightarrow> (Inr (), w\<lparr>listeners := listeners w @ [(''.close-modal'', ''click'')]\<rparr>))"

definition dashboard_setupEventListeners :: "(unit, 'a world_scheme) js" where
  "dashboard_setupEventListeners =
     js_bind (addEventListener ''createPortfolioBtn'' ''click'') (\<lambda>_.
     js_bind close_modal_listener (\<lambda>_.
     js_bind (addEventListener ''createPortfolioForm'' ''submit'') (\<lambda>_.
     addEventListener ''logoutBtn'' ''click'')))"

text \<open>
  The handler of \<open>init\<close>, the same in both pages: the error is logged, and when its
  message includes \<open>401\<close> the tokens are removed and the page goes to \<open>index.html\<close>.
\<close>

definition init_catch :: "js_error \<Rightarrow> (unit, 'a world_scheme) js" where
  "init_catch error =
     js_bind (js_do (console_error ''Initialization error:'' error)) (\<lambda>_.
       if str_includes (message error) ''401''
       then js_do (\<lambda>w. navigate ''index.html'' (removeTokens w))
       else js_return ())"

definition dashboard_init :: "network \<Rightarrow> (unit, 'a dashboard_scheme) js" where
  "dashboard_init net =
     js_try
       (js_bind (dashboard_loadUserInfo net) (\<lambda>_.
        js_bind (loadPortfolios net) (\<lambda>_.
        dashboard_setupEventListeners)))
       init_catch"

text \<open>
  The module, top to bottom: the check of authentication, the module variables, and the
  call \<open>init()\<close> of the last line.
\<close>

definition dashboard_js :: "network \<Rightarrow> world \<Rightarrow> dashboard" where
  "dashboard_js net w =
     (let w1 = (if \<not> isAuthenticated w then navigate ''index.html'' w else w);
          w2 = world.extend w1 \<lparr>portfolios = JArr [], currentUser = JNull\<rparr>
      in snd (dashboard_init net w2))"

section \<open>auth.js\<close>

definition showMessage :: "string \<Rightarrow> string \<Rightarrow> (unit, 'a world_scheme) js" where
  "showMessage msg type =
     js_bind (set_textContent ''message'' (JStr msg)) (\<lambda>_.
     set_className ''message'' [''message'', type])"

text \<open>The body of the registration request, before \<open>JSON.stringify\<close>.\<close>

definition register_body :: "string \<Rightarrow> string \<Rightarrow> string \<Rightarrow> string \<Rightarrow> jsval" where
  "register_body email username fullName password =
     JObj [(''email'', JStr email), (''username'', JStr username),
           (''full_name'', if fullName \<noteq> [] then JStr fullName else JNull),
           (''password'', JStr password), (''is_active'', JBool True),
           (''is_verified'', JBool False), (''role'', JStr ''user'')]"

text \<open>The submit handler of the form \<open>register\<close>.\<close>

definition register_submit :: "network \<Rightarrow> (unit, 'a world_scheme) js" where
  "register_submit net =
     js_bind (input_value ''registerEmail'') (\<lambda>email.
     js_bind (input_value ''registerUsername'') (\<lambda>username.
     js_bind (input_value ''registerFullName'') (\<lambda>fullName.
     js_bind (input_value ''registerPassword'') (\<lambda>password.
       if length password < 8
       then showMessage ''Password must be at least 8 characters'' ''error''
       else
         js_try
           (js_bind (showMessage ''Creating account...'' ''success'') (\<lambda>_.
            js_bind (apiCall net REGISTER
                       \<lparr>opt_method = Some ''POST'',
                        opt_body = Some (register_body email username fullName password),
                        opt_headers = [], skipAuth = True\<rparr>) (\<lambda>_.
            js_bind (showMessage ''Account created! Please login.'' ''success'') (\<lambda>_.
            js_do (\<lambda>w. snd (setTimeout (ShowLoginForm email) 1500 w))))))
           (\<lambda>error.
              showMessage
                (if message error \<noteq> [] then message error
                 else ''Registration failed. Please try again.'')
                ''error'')))))"

text \<open>The callback that the registration schedules.\<close>

definition show_login_form :: "string \<Rightarrow> (unit, 'a world_scheme) js" where
  "show_login_form email =
     js_bind (classList_add ''registerForm'' ''hidden'') (\<lambda>_.
     js_bind (classList_remove ''loginForm'' ''hidden'') (\<lambda>_.
     set_value ''loginEmail'' email))"

section \<open>portfolio.js\<close>

text \<open>
  The module variables, and \<open>searchTimeout\<close>, the variable that the input listener
  of \<open>setupEventListeners\<close> closes over.
\<close>

record detail = world +
  portfolioId :: jsval
  portfolio :: jsval
  holdings :: jsval
  searchTimeout :: "nat option"

definition portfolio_loadUserInfo :: "network \<Rightarrow> (unit, 'a world_scheme) js" where
  "portfolio_loadUserInfo net =
     js_try
       (js_bind (apiCall net ME no_options) (\<lambda>user.
        js_bind (js_eval (prop_of user ''username'')) (\<lambda>username.
        js_bind (js_eval (prop_of user ''email'')) (\<lambda>email.
        set_innerHTML ''userInfo'' (UserInfoView (to_string username) (to_string email)) []))))
       (\<lambda>error. js_do (console_error ''Error loading user info:'' error))"

definition loadPortfolio :: "network \<Rightarrow> (unit, 'a detail_scheme) js" where
  "loadPortfolio net w =
     js_try
       (js_bind (apiCall net (PORTFOLIO_BY_ID (portfolioId w)) no_options) (\<lambda>p.
        js_bind (js_do (\<lambda>w. w\<lparr>portfolio := p\<rparr>)) (\<lambda>_.
        js_bind (js_eval (prop_of p ''name'')) (\<lambda>name.
        js_bind (set_textContent ''portfolioName'' name) (\<lambda>_.
        js_bind (js_eval (prop_of p ''description'')) (\<lambda>description.
        set_textContent ''portfolioDescription''
          (js_or description (JStr ''No description''))))))))
       (\<lambda>error.
          js_do (\<lambda>w. navigate ''dashboard.html''
                   (emit (Alert ''Portfolio not found'')
                      (console_error ''Error loading portfolio:'' error w)))) w"

text \<open>
  \<open>loadHoldings\<close>. The two functions it calls on the valuation,
  \<open>updatePortfolioStats\<close> and \<open>renderHoldings\<close>, format floating-point amounts into
  elements of the page and do nothing else. They are the parameter \<open>render\<close>: any
  function that, from the valuation and the document, gives the document it leaves and
  whether it threw.
\<close>

type_synonym renderer = "jsval \<Rightarrow> element list \<Rightarrow> (js_error + unit) \<times> element list"

definition rendering :: "renderer \<Rightarrow> jsval \<Rightarrow> (unit, 'a world_scheme) js" where
  "rendering render valuation w =
     (case render valuation (document w) of (r, d) \<Rightarrow> (r, w\<lparr>document := d\<rparr>))"

definition loadHoldings :: "network \<Rightarrow> renderer \<Rightarrow> (unit, 'a detail_scheme) js" where
  "loadHoldings net render w =
     js_try
       (js_bind (apiCall net (PORTFOLIO_HOLDINGS (portfolioId w)) no_options) (\<lambda>holdingsData.
        js_bind (js_eval (prop_of holdingsData ''holdings'')) (\<lambda>h.
        js_bind (js_do (\<lambda>w. w\<lparr>holdings := js_or h (JArr [])\<rparr>)) (\<lambda>_.
        js_bind (apiCall net (PORTFOLIO_VALUATION (portfolioId w)) no_options) (\<lambda>valuation.
        rendering render valuation)))))
       (\<lambda>error.
          js_bind (js_do (console_error ''Error loading holdings:'' error)) (\<lambda>_.
          set_innerHTML ''holdingsContainer'' HoldingsErrorView [])) w"

text \<open>
  \<open>encodeURIComponent\<close> on code units below 256: the unreserved characters stay, the
  others become the percent-encoded bytes of their UTF-8 form.
\<close>

definition hex2 :: "nat \<Rightarrow> string" where
  "hex2 n = [''0123456789ABCDEF'' ! (n div 16), ''0123456789ABCDEF'' ! (n mod 16)]"

definition unreserved :: "char \<Rightarrow> bool" where
  "unreserved c =
     (c \<in> set ''ABCDEFGHIJKLMNOPQRSTUVWXYZabcdefghijklmnopqrstuvwxyz0123456789-_.!~*()''
      \<or> c = CHR 0x27)"

definition encode_char :: "char \<Rightarrow> string" where
  "encode_char c =
     (let n = (of_char c :: nat)
      in if unreserved c then [c]
         else if n < 128 then CHR ''%'' # hex2 n
         else CHR ''%'' # hex2 (192 + n div 64) @ CHR ''%'' # hex2 (128 + n mod 64))"

definition encodeURIComponent :: "string \<Rightarrow> string" where
  "encodeURIComponent s = concat (map encode_char s)"

definition search_url :: "string \<Rightarrow> string" where
  "search_url query = COIN_SEARCH @ ''?query='' @ encodeURIComponent query"

text \<open>
  \<open>searchCoins\<close>: what the \<open>try\<close> block does with the answer once the call has
  returned, and the function.
\<close>

definition search_loaded :: "jsval \<Rightarrow> (unit, 'a world_scheme) js" where
  "search_loaded data =
     js_bind (js_eval (prop_of data ''results'')) (\<lambda>r.
     js_bind (js_eval (prop_of (js_or r (JArr [])) ''length'')) (\<lambda>n.
     js_bind
       (if n = JNum 0 then set_innerHTML ''coinSearchResults'' NoCoinsFoundView []
        else (case js_or r (JArr []) of
                JArr coins \<Rightarrow>
                  js_bind (js_eval (each_prop ''id'' coins)) (\<lambda>_.
                  set_innerHTML ''coinSearchResults'' (SearchResultsView coins) [])
              | _ \<Rightarrow> js_throw (not_a_function ''results.map''))) (\<lambda>_.
     classList_add ''coinSearchResults'' ''show'')))"

definition searchCoins :: "network \<Rightarrow> string \<Rightarrow> (unit, 'a world_scheme) js" where
  "searchCoins net query =
     js_try
       (js_bind (apiCall net (search_url query) no_options) search_loaded)
       (\<lambda>error. js_do (console_error ''Error searching coins:'' error))"

text \<open>
  \<open>s.trim()\<close> on code units below 256: tab, line feed, vertical tab, form feed,
  carriage return, space and no-break space are white space.
\<close>

definition is_space :: "char \<Rightarrow> bool" where
  "is_space c = ((of_char c :: nat) \<in> {9, 10, 11, 12, 13, 32, 160})"

definition trim :: "string \<Rightarrow> string" where
  "trim s = rev (dropWhile is_space (rev (dropWhile is_space s)))"

text \<open>The input listener of \<open>coinSearch\<close>, for the text the field holds.\<close>

definition coinSearch_input :: "string \<Rightarrow> (unit, 'a detail_scheme) js" where
  "coinSearch_input text w =
     (let w1 = clearTimeout (searchTimeout w) w;
          query = trim text
      in if length query < 2 then classList_remove ''coinSearchResults'' ''show'' w1
         else (case setTimeout (SearchCoins query) 300 w1 of
                 (h, w2) \<Rightarrow> (Inr (), w2\<lparr>searchTimeout := Some h\<rparr>)))"

definition portfolio_setupEventListeners :: "(unit, 'a detail_scheme) js" where
  "portfolio_setupEventListeners =
     js_bind (addEventListener ''addCoinBtn'' ''click'') (\<lambda>_.
     js_bind (js_do (\<lambda>w. w\<lparr>listeners := listeners w @
                map (\<lambda>e. (''.close-modal'', ''click''))
                  (filter (\<lambda>e. ''close-modal'' \<in> set (classes e)) (document w))\<rparr>)) (\<lambda>_.
     js_bind (js_do (\<lambda>w. case querySelector_class ''close-modal-insights'' w of
                None \<Rightarrow> w
              | Some e \<Rightarrow> w\<lparr>listeners := listeners w @ [(''.close-modal-insights'', ''click'')]\<rparr>)) (\<lambda>_.
     js_bind (js_do (\<lambda>w. w\<lparr>searchTimeout := None\<rparr>)) (\<lambda>_.
     js_bind (addEventListener ''coinSearch'' ''input'') (\<lambda>_.
     js_bind (addEventListener ''addCoinForm'' ''submit'') (\<lambda>_.
     addEventListener ''logoutBtn'' ''click''))))))"

definition portfolio_init :: "network \<Rightarrow> renderer \<Rightarrow> (unit, 'a detail_scheme) js" where
  "portfolio_init net render =
     js_try
       (js_bind (portfolio_loadUserInfo net) (\<lambda>_.
        js_bind (loadPortfolio net) (\<lambda>_.
        js_bind (loadHoldings net render) (\<lambda>_.
        portfolio_setupEventListeners))))
       init_catch"

text \<open>
  The module, top to bottom, for the \<open>id\<close> parameter of the address:
  \<open>urlParams.get('id')\<close> is a string, or null when there is none.
\<close>

definition url_param :: "string option \<Rightarrow> jsval" where
  "url_param p = (case p of None \<Rightarrow> JNull | Some i \<Rightarrow> JStr i)"

definition portfolio_js :: "network \<Rightarrow> renderer \<Rightarrow> string option \<Rightarrow> world \<Rightarrow> detail" where
  "portfolio_js net render id_param w =
     (let w1 = (if \<not> isAuthenticated w then navigate ''index.html'' w else w);
          w2 = world.extend w1
                 \<lparr>portfolioId = url_param id_param,
                  portfolio = JNull, holdings = JArr [], searchTimeout = None\<rparr>;
          w3 = (if \<not> truthy (portfolioId w2) then navigate ''dashboard.html'' w2 else w2)
      in snd (portfolio_init net render w3))"

text \<open>
  Time passes to \<open>t\<close>: the timers due by then leave the table and fire in the order of
  their due times (the earlier registered first among equals), each at its due time. No
  callback of these scripts sets or clears a timer.
\<close>

definition fire :: "network \<Rightarrow> callback \<Rightarrow> 'a world_scheme \<Rightarrow> 'a world_scheme" where
  "fire net cb w =
     (case cb of
        SearchCoins query \<Rightarrow> snd (searchCoins net query w)
      | ShowLoginForm email \<Rightarrow> snd (show_login_form email w))"

definition advance :: "network \<Rightarrow> nat \<Rightarrow> 'a world_scheme \<Rightarrow> 'a world_scheme" where
  "advance net t w =
     (let ready = sort_key due (filter (\<lambda>x. due x \<le> t) (timers w));
          w1 = w\<lparr>timers := filter (\<lambda>x. \<not> due x \<le> t) (timers w)\<rparr>;
          w2 = fold (\<lambda>x v. fire net (callback x) (v\<lparr>now := max (now v) (due x)\<rparr>)) ready w1
      in w2\<lparr>now := max (now w2) t\<rparr>)"

text \<open>The user types \<open>text\<close> into the search field at time \<open>t\<close>.\<close>

definition type_at :: "network \<Rightarrow> nat \<Rightarrow> string \<Rightarrow> 'a detail_scheme \<Rightarrow> 'a detail_scheme" where
  "type_at net t text w = snd (coinSearch_input text (advance net t w))"

section \<open>Terms of the specification\<close>

text \<open>The \<open>Authorization\<close> entry of a request, if it has one.\<close>

definition authorization :: "request \<Rightarrow> string option" where
  "authorization rq = map_of (req_headers rq) ''Authorization''"




text \<open>
  Keystrokes, each a time and the text the field then holds, typed one after the other;
  and a burst of them: each comes no earlier than the one before and less than 300
  milliseconds after it.
\<close>

fun type_all :: "network \<Rightarrow> (nat \<times> string) list \<Rightarrow> 'a detail_scheme \<Rightarrow> 'a detail_scheme" where
  "type_all net [] w = w"
| "type_all net ((t, s) # ks) w = type_all net ks (type_at net t s w)"

fun burst :: "nat \<Rightarrow> (nat \<times> string) list \<Rightarrow> bool" where
  "burst t0 [] = True"
| "burst t0 ((t, s) # ks) = (t0 \<le> t \<and> t < t0 + 300 \<and> burst t ks)"

text \<open>
  The listener's timers are in order when every pending timer is the one whose handle
  \<open>searchTimeout\<close> holds. That is so on a page whose only timers are the listener's.
\<close>

definition scheduled :: "'a detail_scheme \<Rightarrow> bool" where
  "scheduled w = (\<forall>x \<in> set (timers w). searchTimeout w = Some (timer_id x))"

text \<open>The state right after a keystroke at time \<open>t\<close> that left the text \<open>s\<close>.\<close>

definition typed :: "nat \<Rightarrow> string \<Rightarrow> 'a detail_scheme \<Rightarrow> bool" where
  "typed t s v =
     (now v = t \<and> scheduled v \<and>
      map (\<lambda>x. (due x, callback x)) (timers v) =
        (if 2 \<le> length (trim s) then [(t + 300, SearchCoins (trim s))] else []))"

text \<open>Scripts that issue no request and leave storage and timers alone.\<close>

definition quiet :: "('a, 'b world_scheme) js \<Rightarrow> bool" where
  "quiet m = (\<forall>w. fetches (events (snd (m w))) = fetches (events w)
               \<and> storage (snd (m w)) = storage w)"

text \<open>The addresses the page was sent to, in order.\<close>

fun navigations :: "event list \<Rightarrow> string list" where
  "navigations [] = []"
| "navigations (Navigate u # es) = u # navigations es"
| "navigations (e # es) = navigations es"

text \<open>
  A script is tame when it leaves the storage as it was and only adds events, none of them
  a navigation outside \<open>A\<close>; calm when, besides, no error it throws has \<open>401\<close> in its
  message. A script extends the events when it only adds to them.
\<close>

definition tame :: "string set \<Rightarrow> ('a, 'b world_scheme) js \<Rightarrow> bool" where
  "tame A m =
     (\<forall>w. storage (snd (m w)) = storage w \<and>
          (\<exists>es. events (snd (m w)) = events w @ es \<and> set (navigations es) \<subseteq> A))"

definition calm :: "string set \<Rightarrow> ('a, 'b world_scheme) js \<Rightarrow> bool" where
  "calm A m =
     (tame A m \<and> (\<forall>w e. fst (m w) = Inl e \<longrightarrow> \<not> str_includes (message e) ''401''))"

definition extends :: "('a, 'b world_scheme) js \<Rightarrow> bool" where
  "extends m = (\<forall>w. \<exists>es. events (snd (m w)) = events w @ es)"

section \<open>Sample pages and networks\<close>

definition el :: "string \<Rightarrow> element" where
  "el i = \<lparr>eid = Some i, content = Text [], classes = [], el_value = [], owner = None\<rparr>"

text \<open>A freshly loaded window: a document and the storage left by earlier visits.\<close>

definition window :: "element list \<Rightarrow> (string \<rightharpoonup> string) \<Rightarrow> world" where
  "window html st =
     \<lparr>storage = st, document = html, events = [], timers = [], now = 0, next_timer = 1,
      listeners = []\<rparr>"

definition signed_in :: "string \<rightharpoonup> string" where
  "signed_in = [TOKEN_KEY \<mapsto> ''T1'', ''refresh_token'' \<mapsto> ''R1'']"

text \<open>A store whose access token is the empty string.\<close>

definition empty_token :: "string \<rightharpoonup> string" where
  "empty_token = [TOKEN_KEY \<mapsto> []]"

text \<open>A server that answers every request with the same status and body.\<close>

definition respond :: "nat \<Rightarrow> jsval \<Rightarrow> network" where
  "respond code body rq = Inr \<lparr>status = code, json = Inr body\<rparr>"

definition not_authenticated :: network where
  "not_authenticated = respond 401 (JObj [(''detail'', JStr ''Could not validate credentials'')])"

definition unauthorized :: network where
  "unauthorized = respond 401 (JObj [(''detail'', JStr ''401 Unauthorized'')])"


definition caller_auth :: options where
  "caller_auth = no_options\<lparr>opt_headers := [(''Authorization'', ''Bearer X'')], skipAuth := True\<rparr>"

definition login_options :: options where
  "login_options = no_options\<lparr>opt_method := Some ''POST'', skipAuth := True\<rparr>"

definition dashboard_html :: "element list" where
  "dashboard_html =
     map el [''userInfo'', ''portfolioCount'', ''coinCount'', ''totalValue'', ''totalProfit'',
             ''portfoliosList'', ''createPortfolioBtn'', ''createPortfolioModal'']
     @ [(el ''closeCreate'')\<lparr>classes := [''close-modal'']\<rparr>]
     @ map el [''createPortfolioForm'', ''portfolioName'', ''portfolioDescription'',
               ''portfolioPublic'', ''logoutBtn'']"

definition portfolio_html :: "element list" where
  "portfolio_html =
     map el [''userInfo'', ''portfolioName'', ''portfolioDescription'', ''totalValue'',
             ''totalCoins'', ''totalProfitLoss'', ''holdingsContainer'', ''addCoinBtn'',
             ''addCoinModal'']
     @ [(el ''closeAddCoin'')\<lparr>classes := [''close-modal'']\<rparr>]
     @ map el [''addCoinForm'', ''coinSearch'', ''coinSearchResults'', ''coinId'', ''coinSymbol'',
               ''quantity'', ''buyPrice'', ''aiInsightsModal'']
     @ [(el ''closeInsights'')\<lparr>classes := [''close-modal-insights'']\<rparr>]
     @ map el [''insightCoinName'', ''aiInsightsContent'', ''logoutBtn'']"

text \<open>The detail page of portfolio 7 once its listeners are set up.\<close>

definition detail_page :: detail where
  "detail_page = world.extend (window portfolio_html signed_in)
                   \<lparr>portfolioId = JStr ''7'', portfolio = JNull, holdings = JArr [],
                    searchTimeout = None\<rparr>"

text \<open>The entry page with the registration form filled in, the password too short.\<close>

definition auth_html :: "element list" where
  "auth_html =
     map el [''loginForm'', ''registerForm'', ''login'', ''loginEmail'', ''loginPassword'',
             ''register'']
     @ [(el ''registerEmail'')\<lparr>el_value := ''a@x.com''\<rparr>,
        (el ''registerUsername'')\<lparr>el_value := ''ann''\<rparr>,
        (el ''registerFullName'')\<lparr>el_value := ''Ann Lee''\<rparr>,
        (el ''registerPassword'')\<lparr>el_value := ''pw12345''\<rparr>,
        el ''message'']"

text \<open>A server that finds no coin.\<close>

definition coin_server :: network where
  "coin_server = respond 200 (JObj [(''results'', JArr [])])"

text \<open>A rendering that shows nothing.\<close>

definition render_nothing :: renderer where
  "render_nothing valuation d = (Inr (), d)"






section \<open>Lemmas on the model\<close>

lemmas js_defs = js_bind_def js_try_def js_do_def js_eval_def js_return_def js_throw_def

lemma map_of_fold_update:
  "map_of (fold (\<lambda>(k, v). AList.update k v) hs init) k =
     (case map_of (rev hs) k of None \<Rightarrow> map_of init k | Some v \<Rightarrow> Some v)"
proof (induction hs arbitrary: init)
  case Nil
  then show ?case by simp
next
  case (Cons h hs)
  obtain a b where h: "h = (a, b)" by (cases h)
  show ?case
    by (simp add: Cons.IH h update_conv' map_add_def split: option.splits)
qed

lemma apiCall_events:
  "events (snd (apiCall net u opts w)) =
     events w @ Fetch (make_request w u opts) #
       (case apiCall_try net (make_request w u opts) of
          Inl e \<Rightarrow> [ConsoleError ''API Error:'' e]
        | Inr d \<Rightarrow> [])"
  by (simp add: apiCall_def Let_def emit_def console_error_def split: sum.splits)

lemma fetches_append: "fetches (xs @ ys) = fetches xs @ fetches ys"
  by (induction xs rule: fetches.induct) simp_all

lemma apiCall_frame:
  "document (snd (apiCall net u opts w)) = document w"
  "storage (snd (apiCall net u opts w)) = storage w"
  "timers (snd (apiCall net u opts w)) = timers w"
  "(snd (apiCall net u opts w))\<lparr>events := events w\<rparr> = w"
  by (simp_all add: apiCall_def Let_def emit_def console_error_def split: sum.splits)


lemma find_update_first:
  assumes "\<And>e. eid (f e) = eid e"
  shows "find (has_id j) (update_first (has_id i) f xs) =
           (if j = i then map_option f (find (has_id i) xs) else find (has_id j) xs)"
  unfolding has_id_def [abs_def] by (induction xs) (auto simp: assms)

lemma update_first_absent: "find P xs = None \<Longrightarrow> update_first P f xs = xs"
  by (induction xs) (auto split: if_splits)

lemma set_property_get:
  assumes "\<And>e. eid (f e) = eid e"
  shows "getElementById j (snd (set_property i k f w)) =
           (if j = i then map_option f (getElementById i w) else getElementById j w)"
  by (auto simp: set_property_def getElementById_def find_update_first [OF assms]
      split: option.splits)

lemma set_property_fst:
  "fst (set_property i k f w) = (case getElementById i w of None \<Rightarrow> Inl (cannot_set k) | Some e \<Rightarrow> Inr ())"
  by (simp add: set_property_def split: option.splits)

lemma set_property_frame:
  "storage (snd (set_property i k f w)) = storage w"
  "events (snd (set_property i k f w)) = events w"
  "timers (snd (set_property i k f w)) = timers w"
  by (simp_all add: set_property_def split: option.splits)



lemma valuation_failed_fst: "fst (valuation_failed x e w) = Inr ()"
  by (simp add: valuation_failed_def js_defs set_textContent_def set_property_def
      getElementById_def console_error_def emit_def split: option.splits)




lemma valuation_loaded_cases:
  "(\<exists>e. valuation_loaded x v w = (Inl e, w)) \<or>
   (fst (valuation_loaded x v w) = Inr () \<and>
    (\<forall>i. i \<noteq> value_id x \<longrightarrow> getElementById i (snd (valuation_loaded x v w)) = getElementById i w) \<and>
    (getElementById (value_id x) w = None \<longrightarrow> snd (valuation_loaded x v w) = w))"
proof (cases "getElementById (value_id x) w")
  case None
  then show ?thesis by (simp add: valuation_loaded_def)
next
  case (Some el)
  show ?thesis
  proof (cases "prop_of v ''total_value_usd''")
    case (Inl e)
    then show ?thesis using Some by (simp add: valuation_loaded_def js_defs)
  next
    case (Inr total)
    then show ?thesis using Some
      by (simp add: valuation_loaded_def js_defs set_textContent_def set_property_get
          set_property_fst)
  qed
qed



lemma loadPortfolioValuation_unfold:
  assumes "apiCall net (PORTFOLIO_VALUATION x) no_options w = (r, w1)"
  shows "(\<exists>err. loadPortfolioValuation net x w = valuation_failed x err w1 \<and> (\<forall>e. r = Inl e \<longrightarrow> err = e))
       \<or> (\<exists>v. r = Inr v \<and> loadPortfolioValuation net x w = valuation_loaded x v w1 \<and>
              fst (valuation_loaded x v w1) = Inr ())"
proof (cases r)
  case (Inl e)
  then show ?thesis using assms by (simp add: loadPortfolioValuation_def js_defs)
next
  case (Inr v)
  from valuation_loaded_cases [of x v w1] show ?thesis
  proof
    assume "\<exists>err. valuation_loaded x v w1 = (Inl err, w1)"
    then show ?thesis using assms Inr by (auto simp: loadPortfolioValuation_def js_defs)
  next
    assume a: "fst (valuation_loaded x v w1) = Inr () \<and>
      (\<forall>i. i \<noteq> value_id x \<longrightarrow>
         getElementById i (snd (valuation_loaded x v w1)) = getElementById i w1) \<and>
      (getElementById (value_id x) w1 = None \<longrightarrow> snd (valuation_loaded x v w1) = w1)"
    then have "loadPortfolioValuation net x w = valuation_loaded x v w1"
      using assms Inr
      by (cases "valuation_loaded x v w1") (simp add: loadPortfolioValuation_def js_defs)
    with a Inr show ?thesis by simp
  qed
qed

lemma loadPortfolioValuation_fst: "fst (loadPortfolioValuation net x w) = Inr ()"
proof -
  obtain r w1 where call: "apiCall net (PORTFOLIO_VALUATION x) no_options w = (r, w1)"
    by (cases "apiCall net (PORTFOLIO_VALUATION x) no_options w")
  from loadPortfolioValuation_unfold [OF call] show ?thesis
    by (auto simp: valuation_failed_fst)
qed





lemma js_bind_unit: "fst (m w) = Inr () \<Longrightarrow> js_bind m f w = f () (snd (m w))"
  by (cases "m w") (simp add: js_bind_def)


lemma set_textContent_fst:
  "fst (set_textContent i v w) =
     (case getElementById i w of None \<Rightarrow> Inl (cannot_set ''textContent'') | Some e \<Rightarrow> Inr ())"
  by (simp add: set_textContent_def set_property_fst)

lemma set_textContent_get:
  "getElementById j (snd (set_textContent i v w)) =
     (if j = i then map_option (\<lambda>e. e\<lparr>content := Text (text_of v)\<rparr>) (getElementById i w)
      else getElementById j w)"
  by (simp add: set_textContent_def set_property_get)



lemma value_id_not_stat [simp]:
  "value_id x \<noteq> ''portfolioCount''" "value_id x \<noteq> ''coinCount''"
  "''portfolioCount'' \<noteq> value_id x" "''coinCount'' \<noteq> value_id x"
  by (simp_all add: value_id_def)

lemma js_bind_input:
  "js_bind (input_value i) f w =
     (case getElementById i w of
        None \<Rightarrow> (Inl (cannot_read ''null'' ''value''), w)
      | Some e \<Rightarrow> f (el_value e) w)"
  by (simp add: js_bind_def input_value_def split: option.splits)

lemma showMessage_frame:
  "events (snd (showMessage msg type w)) = events w"
  "storage (snd (showMessage msg type w)) = storage w"
  "timers (snd (showMessage msg type w)) = timers w"
  by (simp_all add: showMessage_def js_bind_def set_textContent_def set_className_def
      set_property_def split: option.splits)

lemma showMessage_shown:
  assumes "getElementById ''message'' w = Some m"
  shows "fst (showMessage msg type w) = Inr ()"
    and "getElementById ''message'' (snd (showMessage msg type w)) =
           Some (m\<lparr>content := Text msg, classes := [''message'', type]\<rparr>)"
proof -
  have one: "fst (set_textContent ''message'' (JStr msg) w) = Inr ()"
    by (simp add: set_textContent_fst assms)
  have two: "getElementById ''message'' (snd (set_textContent ''message'' (JStr msg) w)) =
               Some (m\<lparr>content := Text msg\<rparr>)"
    by (simp add: set_textContent_get assms text_of_def)
  show "fst (showMessage msg type w) = Inr ()"
    by (simp add: showMessage_def js_bind_unit one set_className_def set_property_fst two)
  show "getElementById ''message'' (snd (showMessage msg type w)) =
           Some (m\<lparr>content := Text msg, classes := [''message'', type]\<rparr>)"
    by (simp add: showMessage_def js_bind_unit one set_className_def set_property_get two)
qed

lemma fetches_snoc_other [simp]:
  "fetches (es @ [ConsoleError l e]) = fetches es"
  "fetches (es @ [Fetch r]) = fetches es @ [r]"
  by (simp_all add: fetches_append)

lemma quiet_bind: "quiet m \<Longrightarrow> (\<And>a. quiet (f a)) \<Longrightarrow> quiet (js_bind m f)"
  unfolding quiet_def js_bind_def
  by (auto split: prod.splits sum.splits) (metis snd_conv)+

lemma quiet_prims:
  "quiet (js_eval r)" "quiet (js_throw e)" "quiet (js_return a)"
  "quiet (set_innerHTML i v kids)" "quiet (classList_add i c)" "quiet (classList_remove i c)"
  "quiet (js_do (console_error l e))"
  by (simp_all add: quiet_def js_defs set_innerHTML_def classList_add_def classList_remove_def
      console_error_def emit_def split: option.splits)

lemma quiet_search_loaded: "quiet (search_loaded data)"
  unfolding search_loaded_def
  by (intro quiet_bind quiet_prims) (auto intro!: quiet_bind quiet_prims split: jsval.splits)

lemma searchCoins_fetches:
  "fetches (events (snd (searchCoins net q w))) =
     fetches (events w) @ [make_request w (search_url q) no_options]"
  "storage (snd (searchCoins net q w)) = storage w"
proof -
  obtain r w1 where call: "apiCall net (search_url q) no_options w = (r, w1)"
    by (cases "apiCall net (search_url q) no_options w")
  have ev: "fetches (events w1) = fetches (events w) @ [make_request w (search_url q) no_options]"
    using apiCall_events [of net "search_url q" no_options w] call
    by (simp add: fetches_append split: sum.splits)
  have st: "storage w1 = storage w"
    using apiCall_frame(2) [of net "search_url q" no_options w] call by simp
  have q1: "fetches (events (snd (search_loaded d w1))) = fetches (events w1)"
    "storage (snd (search_loaded d w1)) = storage w1" for d
    using quiet_search_loaded [of d] unfolding quiet_def by blast+
  have q2: "fetches (events (snd (js_do (console_error l e) v))) = fetches (events v)"
    "storage (snd (js_do (console_error l e) v)) = storage v" for l e and v :: "'a world_scheme"
    using quiet_prims(7) [of l e] unfolding quiet_def by blast+
  show "fetches (events (snd (searchCoins net q w))) =
     fetches (events w) @ [make_request w (search_url q) no_options]"
  proof (cases r)
    case (Inl e)
    then show ?thesis using call ev q2
      by (simp add: searchCoins_def js_try_def js_bind_def)
  next
    case (Inr d)
    show ?thesis
    proof (cases "search_loaded d w1")
      case (Pair res w2)
      with q1 [of d] have "fetches (events w2) = fetches (events w1)" by simp
      then show ?thesis using call ev q2 Inr Pair
        by (cases res) (simp_all add: searchCoins_def js_try_def js_bind_def)
    qed
  qed
  show "storage (snd (searchCoins net q w)) = storage w"
  proof (cases r)
    case (Inl e)
    then show ?thesis using call st q2
      by (simp add: searchCoins_def js_try_def js_bind_def)
  next
    case (Inr d)
    show ?thesis
    proof (cases "search_loaded d w1")
      case (Pair res w2)
      with q1 [of d] have "storage w2 = storage w1" by simp
      then show ?thesis using call st q2 Inr Pair
        by (cases res) (simp_all add: searchCoins_def js_try_def js_bind_def)
    qed
  qed
qed

lemma clear_scheduled:
  assumes "scheduled w"
  shows "clearTimeout (searchTimeout w) w = w\<lparr>timers := []\<rparr>"
proof (cases "searchTimeout w")
  case None
  with assms have "timers w = []" by (cases "timers w") (auto simp: scheduled_def)
  with None show ?thesis by (simp add: clearTimeout_def)
next
  case (Some h)
  with assms have "filter (\<lambda>x. timer_id x \<noteq> h) (timers w) = []"
    by (auto simp: scheduled_def filter_empty_conv)
  with Some show ?thesis by (simp add: clearTimeout_def)
qed

lemma input_long:
  assumes "scheduled w" and "2 \<le> length (trim s)"
  shows "coinSearch_input s w =
     (Inr (), w\<lparr>timers := [\<lparr>timer_id = next_timer w, due = now w + 300,
                             callback = SearchCoins (trim s)\<rparr>],
               next_timer := Suc (next_timer w), searchTimeout := Some (next_timer w)\<rparr>)"
  using assms(2)
  by (simp add: coinSearch_input_def clear_scheduled [OF assms(1)] setTimeout_def Let_def)

lemma input_short:
  assumes "scheduled w" and "length (trim s) < 2"
  shows "coinSearch_input s w = classList_remove ''coinSearchResults'' ''show'' (w\<lparr>timers := []\<rparr>)"
  using assms(2)
  by (simp add: coinSearch_input_def clear_scheduled [OF assms(1)] Let_def)

lemma classList_remove_frame:
  "events (snd (classList_remove i c w)) = events w"
  "storage (snd (classList_remove i c w)) = storage w"
  "timers (snd (classList_remove i c w)) = timers w"
  "now (snd (classList_remove i c w)) = now w"
  by (simp_all add: classList_remove_def split: option.splits)

lemma classList_remove_detail:
  "searchTimeout (snd (classList_remove i c w)) = searchTimeout w"
  by (simp add: classList_remove_def split: option.splits)

lemma classList_remove_get:
  "getElementById i w = Some r \<Longrightarrow>
     getElementById i (snd (classList_remove i c w)) = Some (r\<lparr>classes := removeAll c (classes r)\<rparr>)"
  by (simp add: classList_remove_def getElementById_def find_update_first)

lemma advance_idle:
  assumes "\<forall>x \<in> set (timers w). t < due x"
  shows "advance net t w = w\<lparr>now := max (now w) t\<rparr>"
proof -
  have a: "filter (\<lambda>x. due x \<le> t) (timers w) = []"
    using assms by (auto simp: filter_empty_conv)
  have b: "filter (\<lambda>x. \<not> due x \<le> t) (timers w) = timers w"
    using assms by (auto simp: filter_id_conv)
  show ?thesis by (simp add: advance_def a b Let_def)
qed

lemma make_request_storage:
  "storage v = storage w \<Longrightarrow> make_request v u opts = make_request w u opts"
  by (simp add: make_request_def build_headers_def)

lemma advance_fire:
  assumes "timers w = [x]" and "due x \<le> t" and "callback x = SearchCoins q"
  shows "fetches (events (advance net t w)) =
           fetches (events w) @ [make_request w (search_url q) no_options]"
proof -
  let ?v = "w\<lparr>timers := [], now := max (now w) (due x)\<rparr>"
  have "make_request ?v (search_url q) no_options = make_request w (search_url q) no_options"
    by (rule make_request_storage) simp
  then show ?thesis
    using assms searchCoins_fetches(1) [of net q ?v]
    by (simp add: advance_def Let_def fire_def)
qed

lemma type_at_typed:
  assumes "scheduled v" and "\<forall>x \<in> set (timers v). t < due x" and "now v \<le> t"
  shows "typed t s (type_at net t s v)"
    and "fetches (events (type_at net t s v)) = fetches (events v)"
    and "storage (type_at net t s v) = storage v"
proof -
  let ?v = "v\<lparr>now := t\<rparr>"
  have "max (now v) t = t" using assms(3) by simp
  then have adv: "advance net t v = ?v" using advance_idle [OF assms(2), of net] by simp
  have sch: "scheduled ?v" using assms(1) by (simp add: scheduled_def)
  have now: "now ?v = t" by simp
  show "typed t s (type_at net t s v)"
  proof (cases "2 \<le> length (trim s)")
    case True
    show ?thesis
      using True now
      by (simp add: type_at_def adv input_long [OF sch True] typed_def scheduled_def)
  next
    case False
    then have short: "length (trim s) < 2" by simp
    show ?thesis
      using False now
      by (simp add: type_at_def adv input_short [OF sch short] typed_def scheduled_def
          classList_remove_frame classList_remove_detail)
  qed
  show "fetches (events (type_at net t s v)) = fetches (events v)"
  proof (cases "2 \<le> length (trim s)")
    case True
    show ?thesis by (simp add: type_at_def adv input_long [OF sch True])
  next
    case False
    then have short: "length (trim s) < 2" by simp
    show ?thesis by (simp add: type_at_def adv input_short [OF sch short] classList_remove_frame)
  qed
  show "storage (type_at net t s v) = storage v"
  proof (cases "2 \<le> length (trim s)")
    case True
    show ?thesis by (simp add: type_at_def adv input_long [OF sch True])
  next
    case False
    then have short: "length (trim s) < 2" by simp
    show ?thesis by (simp add: type_at_def adv input_short [OF sch short] classList_remove_frame)
  qed
qed

lemma typed_due: "typed t0 s0 v \<Longrightarrow> t < t0 + 300 \<Longrightarrow> \<forall>x \<in> set (timers v). t < due x"
proof
  fix x
  assume t: "typed t0 s0 v" and lt: "t < t0 + 300" and x: "x \<in> set (timers v)"
  from x have "(due x, callback x) \<in> set (map (\<lambda>x. (due x, callback x)) (timers v))"
    by force
  with t have "due x = t0 + 300"
    by (auto simp: typed_def split: if_splits)
  with lt show "t < due x" by simp
qed

lemma burst_typed:
  assumes "typed t0 s0 v" and "burst t0 ks" and "last ((t0, s0) # ks) = (tn, sn)"
  shows "typed tn sn (type_all net ks v)
       \<and> fetches (events (type_all net ks v)) = fetches (events v)
       \<and> storage (type_all net ks v) = storage v"
  using assms
proof (induction ks arbitrary: t0 s0 v)
  case Nil
  then show ?case by simp
next
  case (Cons k ks)
  obtain t s where k: "k = (t, s)" by (cases k)
  from Cons.prems(2) k have le: "t0 \<le> t" and lt: "t < t0 + 300" and rest: "burst t ks"
    by simp_all
  from Cons.prems(1) have sch: "scheduled v" and now: "now v \<le> t"
    using le by (simp_all add: typed_def)
  note step = type_at_typed [OF sch typed_due [OF Cons.prems(1) lt] now, where net = net and s = s]
  from Cons.prems(3) k have last: "last ((t, s) # ks) = (tn, sn)" by simp
  from Cons.IH [OF step(1) rest last] step(2,3) k show ?case by simp
qed

lemma typed_advance:
  assumes "typed tn sn v" and "tn + 300 \<le> T"
  shows "fetches (events (advance net T v)) =
           fetches (events v) @
             (if 2 \<le> length (trim sn) then [make_request v (search_url (trim sn)) no_options]
              else [])"
proof (cases "2 \<le> length (trim sn)")
  case True
  with assms(1) obtain x where x: "timers v = [x]" "due x = tn + 300"
    "callback x = SearchCoins (trim sn)"
    by (auto simp: typed_def)
  from advance_fire [OF x(1) _ x(3), where t = T and net = net] x(2) assms(2) True show ?thesis by simp
next
  case False
  with assms(1) have "timers v = []" by (simp add: typed_def)
  then have "advance net T v = v\<lparr>now := max (now v) T\<rparr>"
    using advance_idle [where w = v and t = T and net = net] by simp
  with False show ?thesis by simp
qed

lemma unauthorized_call:
  "apiCall unauthorized u no_options w =
     (Inl (JsError ''Error'' ''401 Unauthorized''),
      w\<lparr>events := events w @
          [Fetch (make_request w u no_options),
           ConsoleError ''API Error:'' (JsError ''Error'' ''401 Unauthorized'')]\<rparr>)"
  by (simp add: apiCall_def apiCall_try_def unauthorized_def respond_def ok_def failure_text_def
      Let_def emit_def console_error_def)

lemma navigations_append: "navigations (xs @ ys) = navigations xs @ navigations ys"
  by (induction xs rule: navigations.induct) simp_all

lemma tameI:
  assumes "\<And>w. storage (snd (m w)) = storage w"
    and "\<And>w. \<exists>es. events (snd (m w)) = events w @ es \<and> set (navigations es) \<subseteq> A"
  shows "tame A m"
  using assms unfolding tame_def by blast

lemma tameD:
  assumes "tame A m"
  shows "storage (snd (m w)) = storage w"
    and "\<exists>es. events (snd (m w)) = events w @ es \<and> set (navigations es) \<subseteq> A"
  using assms unfolding tame_def by blast+

lemma tame_then:
  assumes m: "tame A m" and f: "tame A f" and w1: "snd (m w) = w1"
  shows "storage (snd (f w1)) = storage w
       \<and> (\<exists>es. events (snd (f w1)) = events w @ es \<and> set (navigations es) \<subseteq> A)"
proof -
  from tameD [OF m, of w] w1 obtain es1 where
    s1: "storage w1 = storage w" and e1: "events w1 = events w @ es1" "set (navigations es1) \<subseteq> A"
    by auto
  from tameD [OF f, of w1] obtain es2 where
    s2: "storage (snd (f w1)) = storage w1"
    and e2: "events (snd (f w1)) = events w1 @ es2" "set (navigations es2) \<subseteq> A"
    by auto
  have "events (snd (f w1)) = events w @ (es1 @ es2)" using e1 e2 by simp
  moreover have "set (navigations (es1 @ es2)) \<subseteq> A" using e1 e2 by (simp add: navigations_append)
  ultimately show ?thesis using s1 s2 by metis
qed

lemma tame_bind:
  assumes m: "tame A m" and f: "\<And>a. tame A (f a)"
  shows "tame A (js_bind m f)"
proof (rule tameI)
  fix w
  obtain r w1 where mw: "m w = (r, w1)" by (cases "m w")
  then have w1: "snd (m w) = w1" by simp
  show "storage (snd (js_bind m f w)) = storage w"
  proof (cases r)
    case (Inl e)
    then show ?thesis using mw tameD(1) [OF m, of w] by (simp add: js_bind_def)
  next
    case (Inr a)
    then show ?thesis using mw tame_then [OF m f [of a] w1] by (simp add: js_bind_def)
  qed
  show "\<exists>es. events (snd (js_bind m f w)) = events w @ es \<and> set (navigations es) \<subseteq> A"
  proof (cases r)
    case (Inl e)
    then show ?thesis using mw tameD(2) [OF m, of w] by (simp add: js_bind_def)
  next
    case (Inr a)
    then show ?thesis using mw tame_then [OF m f [of a] w1] by (simp add: js_bind_def)
  qed
qed

lemma tame_try_if:
  assumes m: "tame A m" and h: "\<And>w e. fst (m w) = Inl e \<Longrightarrow> tame A (h e)"
  shows "tame A (js_try m h)"
proof (rule tameI)
  fix w
  obtain r w1 where mw: "m w = (r, w1)" by (cases "m w")
  then have w1: "snd (m w) = w1" by simp
  show "storage (snd (js_try m h w)) = storage w"
  proof (cases r)
    case (Inl e)
    with mw have "fst (m w) = Inl e" by simp
    from Inl mw tame_then [OF m h [OF this] w1] show ?thesis by (simp add: js_try_def)
  next
    case (Inr a)
    then show ?thesis using mw tameD(1) [OF m, of w] by (simp add: js_try_def)
  qed
  show "\<exists>es. events (snd (js_try m h w)) = events w @ es \<and> set (navigations es) \<subseteq> A"
  proof (cases r)
    case (Inl e)
    with mw have "fst (m w) = Inl e" by simp
    from Inl mw tame_then [OF m h [OF this] w1] show ?thesis by (simp add: js_try_def)
  next
    case (Inr a)
    then show ?thesis using mw tameD(2) [OF m, of w] by (simp add: js_try_def)
  qed
qed

lemma tame_try: "tame A m \<Longrightarrow> (\<And>e. tame A (h e)) \<Longrightarrow> tame A (js_try m h)"
  by (rule tame_try_if)

lemma calm_tame: "calm A m \<Longrightarrow> tame A m"
  by (simp add: calm_def)

lemma tame_try_calm:
  assumes "calm A m" and "\<And>e. \<not> str_includes (message e) ''401'' \<Longrightarrow> tame A (h e)"
  shows "tame A (js_try m h)"
  using assms by (intro tame_try_if) (auto simp: calm_def)

lemma calm_bind:
  assumes m: "calm A m" and f: "\<And>a. calm A (f a)"
  shows "calm A (js_bind m f)"
proof -
  have t: "tame A (js_bind m f)"
    using m f by (intro tame_bind) (simp_all add: calm_def)
  have "\<not> str_includes (message e) ''401''" if "fst (js_bind m f w) = Inl e" for w e
  proof (cases "m w")
    case (Pair r w1)
    show ?thesis
    proof (cases r)
      case (Inl e')
      with Pair that have "fst (m w) = Inl e" by (simp add: js_bind_def)
      with m show ?thesis by (auto simp: calm_def)
    next
      case (Inr a)
      with Pair that have "fst (f a w1) = Inl e" by (simp add: js_bind_def)
      with f [of a] show ?thesis by (auto simp: calm_def)
    qed
  qed
  with t show ?thesis by (auto simp: calm_def)
qed

lemma calm_try:
  assumes m: "tame A m" and h: "\<And>e. calm A (h e)"
  shows "calm A (js_try m h)"
proof -
  have t: "tame A (js_try m h)"
    using m h by (intro tame_try) (simp_all add: calm_def)
  have "\<not> str_includes (message e) ''401''" if "fst (js_try m h w) = Inl e" for w e
  proof (cases "m w")
    case (Pair r w1)
    show ?thesis
    proof (cases r)
      case (Inl e')
      with Pair that have "fst (h e' w1) = Inl e" by (simp add: js_try_def)
      with h [of e'] show ?thesis by (auto simp: calm_def)
    next
      case (Inr a)
      with Pair that show ?thesis by (simp add: js_try_def)
    qed
  qed
  with t show ?thesis by (auto simp: calm_def)
qed

lemma calm_total: "tame A m \<Longrightarrow> (\<And>w. \<exists>a. fst (m w) = Inr a) \<Longrightarrow> calm A m"
  unfolding calm_def by (metis Inl_Inr_False)

lemma tame_app: "(\<And>w. tame A (F w)) \<Longrightarrow> tame A (\<lambda>w. F w w)"
  unfolding tame_def by blast

lemma calm_app: "(\<And>w. calm A (F w)) \<Longrightarrow> calm A (\<lambda>w. F w w)"
  unfolding calm_def tame_def by blast

lemma tame_same:
  assumes "\<And>w. storage (snd (m w)) = storage w" and "\<And>w. events (snd (m w)) = events w"
  shows "tame A m"
  using assms by (intro tameI) simp_all

lemma tame_do:
  assumes "\<And>w. storage (g w) = storage w" and "\<And>w. events (g w) = events w"
  shows "tame A (js_do g)"
  using assms by (intro tame_same) (simp_all add: js_do_def)

lemma tame_pure: "tame A (js_eval r)" "tame A (js_return a)" "tame A (js_throw e)"
  by (intro tame_same; simp add: js_defs)+

lemma tame_log: "tame A (js_do (console_error l e))"
  by (rule tameI) (simp_all add: js_do_def console_error_def emit_def)

lemma calm_log: "calm A (js_do (console_error l e))"
  by (rule calm_total [OF tame_log]) (simp add: js_do_def)

lemma tame_apiCall: "tame A (apiCall net u opts)"
proof (rule tameI)
  fix w :: "'a world_scheme"
  show "storage (snd (apiCall net u opts w)) = storage w"
    by (rule apiCall_frame)
  show "\<exists>es. events (snd (apiCall net u opts w)) = events w @ es \<and> set (navigations es) \<subseteq> A"
    by (simp add: apiCall_events split: sum.splits)
qed

lemma tame_set_property: "tame A (set_property i k f)"
  by (intro tame_same) (simp_all add: set_property_frame)

lemma tame_dom:
  "tame A (set_textContent i v)" "tame A (set_className i cs)" "tame A (set_value i s)"
  "tame A (set_innerHTML i vw kids)" "tame A (classList_add i c)" "tame A (classList_remove i c)"
  "tame A (addEventListener i ev)" "tame A close_modal_listener" "tame A (rendering render v)"
  by (intro tame_same;
      simp add: set_textContent_def set_className_def set_value_def set_property_frame
        set_innerHTML_def classList_add_def classList_remove_def addEventListener_def
        close_modal_listener_def rendering_def split: option.splits prod.splits)+

lemma no_marker:
  "\<not> str_includes (message (cannot_set ''innerHTML'')) ''401''"
  "\<not> str_includes (message (cannot_read ''null'' ''addEventListener'')) ''401''"
  by code_simp+

lemma calm_dom:
  "calm A (set_innerHTML i vw kids)" "calm A (addEventListener i ev)" "calm A close_modal_listener"
  unfolding calm_def
  by (auto simp: tame_dom no_marker set_innerHTML_def addEventListener_def close_modal_listener_def
      split: option.splits)

lemma tame_mono: "tame A m \<Longrightarrow> A \<subseteq> B \<Longrightarrow> tame B m"
  unfolding tame_def by (meson subset_trans)

lemma tame_valuation_loaded: "tame A (valuation_loaded x v)"
  by (intro tame_same)
     (simp_all add: valuation_loaded_def js_defs set_textContent_def set_property_def
        split: option.splits sum.splits)

lemma tame_valuation_failed: "tame A (valuation_failed x e)"
  unfolding valuation_failed_def
  by (intro tame_bind tame_log tame_same)
     (simp_all add: set_textContent_def set_property_def split: option.splits)

lemma tame_loadPortfolioValuation: "tame A (loadPortfolioValuation net x)"
  unfolding loadPortfolioValuation_def
  by (intro tame_try tame_bind tame_apiCall tame_valuation_loaded tame_valuation_failed)

lemma tame_load_valuations: "tame A (js_do (load_valuations net ids))"
proof (induction ids)
  case Nil
  show ?case by (intro tame_same) (simp_all add: js_do_def)
next
  case (Cons i ids)
  have eq: "js_do (load_valuations net (i # ids)) =
          js_bind (loadPortfolioValuation net i) (\<lambda>_. js_do (load_valuations net ids))"
  proof (rule ext)
    fix w
    obtain r w1 where L: "loadPortfolioValuation net i w = (r, w1)"
      by (cases "loadPortfolioValuation net i w")
    with loadPortfolioValuation_fst [of net i w] have "r = Inr ()" by simp
    with L show "js_do (load_valuations net (i # ids)) w =
          js_bind (loadPortfolioValuation net i) (\<lambda>_. js_do (load_valuations net ids)) w"
      by (simp add: js_do_def js_bind_def)
  qed
  show ?case
    by (subst eq) (intro tame_bind tame_loadPortfolioValuation Cons.IH)
qed

lemma tame_updateDashboardStats: "tame A updateDashboardStats"
proof -
  have "updateDashboardStats = (\<lambda>w :: 'a dashboard_scheme.
     js_bind (js_eval (prop_of (portfolios w) ''length'')) (\<lambda>totalPortfolios.
     js_bind (js_eval (totalCoins (portfolios w))) (\<lambda>coins.
     js_bind (set_textContent ''portfolioCount'' totalPortfolios) (\<lambda>_.
     js_bind (set_textContent ''coinCount'' coins) (\<lambda>_.
     js_bind (set_textContent ''totalValue'' (JStr ''$0.00'')) (\<lambda>_.
     set_textContent ''totalProfit'' (JStr ''$0.00'')))))) w)"
    (is "_ = ?F")
    by (rule ext) (simp only: updateDashboardStats_def)
  moreover have "tame A ?F"
    by (rule tame_app) (intro tame_bind tame_pure tame_dom)
  ultimately show ?thesis by (simp only:)
qed

lemma tame_renderPortfolios: "tame A (renderPortfolios net)"
proof -
  have "renderPortfolios net = (\<lambda>w :: 'a dashboard_scheme.
     js_bind (js_eval (prop_of (portfolios w) ''length'')) (\<lambda>n.
       if n = JNum 0 then set_innerHTML ''portfoliosList'' NoPortfoliosView []
       else (case portfolios w of
               JArr ps \<Rightarrow>
                 js_bind (js_eval (each_prop ''id'' ps)) (\<lambda>ids.
                 js_bind (set_innerHTML ''portfoliosList'' (PortfolioCardsView ps)
                            (map value_element ids)) (\<lambda>_.
                 js_do (load_valuations net ids)))
             | _ \<Rightarrow> js_throw (not_a_function ''portfolios.map''))) w)"
    (is "_ = ?F")
    by (rule ext) (simp only: renderPortfolios_def)
  moreover have cases: "tame A (case p of
               JArr ps \<Rightarrow>
                 js_bind (js_eval (each_prop ''id'' ps)) (\<lambda>ids.
                 js_bind (set_innerHTML ''portfoliosList'' (PortfolioCardsView ps)
                            (map value_element ids)) (\<lambda>_.
                 js_do (load_valuations net ids)))
             | _ \<Rightarrow> js_throw (not_a_function ''portfolios.map''))" for p
    by (cases p) (simp_all add: tame_bind tame_pure tame_dom tame_load_valuations)
  have "tame A ?F"
    by (rule tame_app) (intro tame_bind tame_pure, simp add: tame_dom cases)
  ultimately show ?thesis by (simp only:)
qed

lemma tame_field_update:
  "tame A (js_do (\<lambda>w. w\<lparr>currentUser := u\<rparr>))" "tame A (js_do (\<lambda>w. w\<lparr>portfolios := p\<rparr>))"
  by (intro tame_do; simp)+

lemma calm_dashboard_loadUserInfo: "calm A (dashboard_loadUserInfo net)"
  unfolding dashboard_loadUserInfo_def
  by (intro calm_try calm_log tame_bind tame_apiCall tame_pure tame_dom tame_field_update)

lemma calm_loadPortfolios: "calm A (loadPortfolios net)"
  unfolding loadPortfolios_def
  by (intro calm_try calm_bind calm_log calm_dom tame_bind tame_apiCall tame_field_update
      tame_updateDashboardStats tame_renderPortfolios)

lemma calm_dashboard_setupEventListeners: "calm A dashboard_setupEventListeners"
  unfolding dashboard_setupEventListeners_def
  by (intro calm_bind calm_dom)

lemma tame_init_catch:
  "\<not> str_includes (message e) ''401'' \<Longrightarrow> tame A (init_catch e)"
  by (simp add: init_catch_def tame_bind tame_log tame_pure)

lemma tame_extends: "tame A m \<Longrightarrow> extends m"
  unfolding tame_def extends_def by blast

lemma extendsI: "tame UNIV m \<Longrightarrow> extends m"
  by (rule tame_extends)

lemma extends_init_catch: "extends (init_catch e)"
  unfolding extends_def
  by (simp add: init_catch_def js_defs console_error_def navigate_def emit_def removeTokens_def
      removeItem_def)

lemma head_bind:
  assumes "\<exists>es. events (snd (m w)) = events w @ x # es" and "\<And>a. extends (f a)"
  shows "\<exists>es. events (snd (js_bind m f w)) = events w @ x # es"
proof (cases "m w")
  case (Pair r w1)
  with assms(1) obtain es where es: "events w1 = events w @ x # es" by auto
  show ?thesis
  proof (cases r)
    case (Inl e)
    with Pair es show ?thesis by (simp add: js_bind_def)
  next
    case (Inr a)
    from assms(2) [of a] obtain es2 where "events (snd (f a w1)) = events w1 @ es2"
      unfolding extends_def by blast
    with Pair Inr es show ?thesis by (simp add: js_bind_def)
  qed
qed

lemma head_try:
  assumes "\<exists>es. events (snd (m w)) = events w @ x # es" and "\<And>e. extends (h e)"
  shows "\<exists>es. events (snd (js_try m h w)) = events w @ x # es"
proof (cases "m w")
  case (Pair r w1)
  with assms(1) obtain es where es: "events w1 = events w @ x # es" by auto
  show ?thesis
  proof (cases r)
    case (Inr a)
    with Pair es show ?thesis by (simp add: js_try_def)
  next
    case (Inl e)
    from assms(2) [of e] obtain es2 where "events (snd (h e w1)) = events w1 @ es2"
      unfolding extends_def by blast
    with Pair Inl es show ?thesis by (simp add: js_try_def)
  qed
qed

lemma head_apiCall:
  "\<exists>es. events (snd (apiCall net u opts w)) = events w @ Fetch (make_request w u opts) # es"
  by (simp add: apiCall_events)

lemma head_dashboard_init:
  "\<exists>es. events (snd (dashboard_init net w)) = events w @ Fetch (make_request w ME no_options) # es"
  unfolding dashboard_init_def dashboard_loadUserInfo_def
  by (intro head_try head_bind head_apiCall extends_init_catch extendsI;
      intro tame_bind tame_log tame_field_update tame_pure tame_dom
        calm_tame [OF calm_loadPortfolios] calm_tame [OF calm_dashboard_setupEventListeners])

lemma tame_detail_update:
  "tame A (js_do (\<lambda>w. w\<lparr>portfolio := p\<rparr>))" "tame A (js_do (\<lambda>w. w\<lparr>holdings := h\<rparr>))"
  "tame A (js_do (\<lambda>w. w\<lparr>searchTimeout := t\<rparr>))"
  "tame A (js_do (\<lambda>w. w\<lparr>listeners := listeners w @ ls w\<rparr>))"
  "tame A (js_do (\<lambda>w. case querySelector_class c w of
                None \<Rightarrow> w
              | Some e \<Rightarrow> w\<lparr>listeners := listeners w @ l\<rparr>))"
  by (intro tame_do; simp split: option.splits)+

lemma calm_portfolio_loadUserInfo: "calm A (portfolio_loadUserInfo net)"
  unfolding portfolio_loadUserInfo_def
  by (intro calm_try calm_log tame_bind tame_apiCall tame_pure tame_dom)

lemma calm_loadPortfolio: "calm {''dashboard.html''} (loadPortfolio net)"
proof -
  have eq: "loadPortfolio net = (\<lambda>w :: 'a detail_scheme.
     js_try
       (js_bind (apiCall net (PORTFOLIO_BY_ID (portfolioId w)) no_options) (\<lambda>p.
        js_bind (js_do (\<lambda>w. w\<lparr>portfolio := p\<rparr>)) (\<lambda>_.
        js_bind (js_eval (prop_of p ''name'')) (\<lambda>name.
        js_bind (set_textContent ''portfolioName'' name) (\<lambda>_.
        js_bind (js_eval (prop_of p ''description'')) (\<lambda>description.
        set_textContent ''portfolioDescription''
          (js_or description (JStr ''No description''))))))))
       (\<lambda>error.
          js_do (\<lambda>w. navigate ''dashboard.html''
                   (emit (Alert ''Portfolio not found'')
                      (console_error ''Error loading portfolio:'' error w)))) w)"
    (is "_ = ?F")
    by (rule ext) (simp only: loadPortfolio_def)
  have handler: "calm {''dashboard.html''}
     (js_do (\<lambda>w. navigate ''dashboard.html''
                   (emit (Alert ''Portfolio not found'')
                      (console_error ''Error loading portfolio:'' error w))))"
    for error :: js_error
    by (rule calm_total, rule tameI)
       (simp_all add: js_do_def navigate_def emit_def console_error_def)
  have "calm {''dashboard.html''} ?F"
    by (rule calm_app)
       (intro calm_try handler tame_bind tame_apiCall tame_pure tame_dom tame_detail_update)
  then show ?thesis by (simp only: eq)
qed

lemma calm_loadHoldings: "calm A (loadHoldings net render)"
proof -
  have eq: "loadHoldings net render = (\<lambda>w :: 'a detail_scheme.
     js_try
       (js_bind (apiCall net (PORTFOLIO_HOLDINGS (portfolioId w)) no_options) (\<lambda>holdingsData.
        js_bind (js_eval (prop_of holdingsData ''holdings'')) (\<lambda>h.
        js_bind (js_do (\<lambda>w. w\<lparr>holdings := js_or h (JArr [])\<rparr>)) (\<lambda>_.
        js_bind (apiCall net (PORTFOLIO_VALUATION (portfolioId w)) no_options) (\<lambda>valuation.
        rendering render valuation)))))
       (\<lambda>error.
          js_bind (js_do (console_error ''Error loading holdings:'' error)) (\<lambda>_.
          set_innerHTML ''holdingsContainer'' HoldingsErrorView [])) w)"
    (is "_ = ?F")
    by (rule ext) (simp only: loadHoldings_def)
  have "calm A ?F"
    by (rule calm_app)
       (intro calm_try calm_bind calm_log calm_dom tame_bind tame_apiCall tame_pure tame_dom
          tame_detail_update)
  then show ?thesis by (simp only: eq)
qed

lemma calm_do: "tame A (js_do g) \<Longrightarrow> calm A (js_do g)"
  by (rule calm_total) (simp_all add: js_do_def)

lemma calm_portfolio_setupEventListeners: "calm A portfolio_setupEventListeners"
  unfolding portfolio_setupEventListeners_def
  by (intro calm_bind calm_dom calm_do tame_detail_update)

lemma tame_dashboard_init: "tame {} (dashboard_init net)"
  unfolding dashboard_init_def
  by (intro tame_try_calm calm_bind calm_dashboard_loadUserInfo calm_loadPortfolios
      calm_dashboard_setupEventListeners tame_init_catch)

lemma tame_portfolio_init: "tame {''dashboard.html''} (portfolio_init net render)"
  unfolding portfolio_init_def
  by (intro tame_try_calm calm_bind calm_portfolio_loadUserInfo calm_loadPortfolio
      calm_loadHoldings calm_portfolio_setupEventListeners tame_init_catch)

lemma head_portfolio_init:
  "\<exists>es. events (snd (portfolio_init net render w)) =
         events w @ Fetch (make_request w ME no_options) # es"
  unfolding portfolio_init_def portfolio_loadUserInfo_def
  by (intro head_try head_bind head_apiCall extends_init_catch extendsI;
      intro tame_bind tame_log tame_pure tame_dom
        tame_mono [OF calm_tame [OF calm_loadPortfolio]] calm_tame [OF calm_loadHoldings]
        calm_tame [OF calm_portfolio_setupEventListeners] subset_UNIV)

lemma extend_fields:
  "storage (world.extend w m) = storage w" "events (world.extend w m) = events w"
  by (simp_all add: world.defs)

lemma navigate_fields:
  "storage (navigate u w) = storage w" "events (navigate u w) = events w @ [Navigate u]"
  by (simp_all add: navigate_def emit_def)

lemma subset_singleton_filter:
  "set xs \<subseteq> {a} \<Longrightarrow> b \<noteq> a \<Longrightarrow> filter (\<lambda>u. u = b) xs = []"
  by (induction xs) auto

lemma unauthenticated_request:
  "\<not> isAuthenticated w \<Longrightarrow> authorization (make_request w u no_options) = None"
  by (auto simp: isAuthenticated_def getToken_def authorization_def make_request_def
      build_headers_def no_options_def split: option.splits)


section \<open>The request gateway\<close>

text \<open>
  C1. The claim: for every response of status 401 the error that \<open>apiCall\<close> throws has
  a message that contains \<open>401\<close>, whatever the body holds. The code takes the message
  from the body alone. For the response 401 with the body
  \<open>{"detail": "Could not validate credentials"}\<close> the thrown message is that detail, and
  it does not include \<open>401\<close>.
\<close>

theorem apiCall_401_message_lacks_marker:
  "fst (apiCall not_authenticated ME no_options (window [] signed_in)) =
     Inl (JsError ''Error'' ''Could not validate credentials'')
   \<and> \<not> str_includes ''Could not validate credentials'' ''401''"
  by code_simp

text \<open>
  C3, as amended. Every call issues one request, the one \<open>make_request\<close> builds. When
  the store holds a non-empty access token and \<open>skipAuth\<close> is unset, its
  \<open>Authorization\<close> entry is \<open>Bearer\<close> and the token. When \<open>skipAuth\<close> is set, the
  entry is the one the caller passed in \<open>options.headers\<close> (the last of that name),
  and there is none when the caller passed none: the stored token is never put in.
\<close>

theorem apiCall_authorization:
  "fetches (events (snd (apiCall net u opts w))) = fetches (events w) @ [make_request w u opts]
   \<and> (isAuthenticated w \<and> \<not> skipAuth opts \<longrightarrow>
        (\<exists>token. getToken w = Some token \<and>
           authorization (make_request w u opts) = Some (''Bearer '' @ token)))
   \<and> (skipAuth opts \<longrightarrow>
        authorization (make_request w u opts) = map_of (rev (opt_headers opts)) ''Authorization'')"
proof -
  have a: "fetches (events (snd (apiCall net u opts w))) =
             fetches (events w) @ [make_request w u opts]"
    by (simp add: apiCall_events fetches_append split: sum.splits)
  have b: "isAuthenticated w \<and> \<not> skipAuth opts \<longrightarrow>
        (\<exists>token. getToken w = Some token \<and>
           authorization (make_request w u opts) = Some (''Bearer '' @ token))"
    by (auto simp: isAuthenticated_def getToken_def authorization_def make_request_def
        build_headers_def update_conv' split: option.splits)
  have c: "skipAuth opts \<longrightarrow>
        authorization (make_request w u opts) = map_of (rev (opt_headers opts)) ''Authorization''"
    by (auto simp: authorization_def make_request_def build_headers_def map_of_fold_update
        Let_def split: option.splits)
  from a b c show ?thesis by blast
qed

text \<open>
  The amended claim at a signed-in window: a call without options carries \<open>Bearer T1\<close>,
  and the login call, which sets \<open>skipAuth\<close> and passes no headers, carries no
  \<open>Authorization\<close> entry.
\<close>

theorem apiCall_authorization_witness:
  "isAuthenticated (window [] signed_in) \<and> \<not> skipAuth no_options
   \<and> authorization (make_request (window [] signed_in) ME no_options) = Some ''Bearer T1''
   \<and> skipAuth login_options
   \<and> authorization (make_request (window [] signed_in) LOGIN login_options) = None"
proof -
  have h1: "isAuthenticated (window [] signed_in) \<and> \<not> skipAuth no_options"
    by code_simp
  have t: "getToken (window [] signed_in) = Some ''T1''"
    by code_simp
  have h2: "skipAuth login_options" and n: "map_of (rev (opt_headers login_options)) ''Authorization'' = None"
    by code_simp+
  from apiCall_authorization [of unauthorized ME no_options "window [] signed_in"] h1 t
  have "authorization (make_request (window [] signed_in) ME no_options) = Some ''Bearer T1''"
    by auto
  moreover from apiCall_authorization [of unauthorized LOGIN login_options "window [] signed_in"] h2 n
  have "authorization (make_request (window [] signed_in) LOGIN login_options) = None"
    by simp
  ultimately show ?thesis using h1 h2 by simp
qed

text \<open>
  The claim C3 as stated fails. With \<open>skipAuth\<close> set and an \<open>Authorization\<close> header
  among the caller's own headers, the request carries that header. And with the empty
  string stored as the access token and \<open>skipAuth\<close> unset, the request carries no
  \<open>Authorization\<close> entry at all.
\<close>

theorem skipAuth_caller_header_counterexample:
  "skipAuth caller_auth
   \<and> map authorization
         (fetches (events (snd (apiCall unauthorized LOGIN caller_auth (window [] Map.empty))))) =
       [Some ''Bearer X'']
   \<and> getToken (window [] empty_token) = Some []
   \<and> \<not> skipAuth no_options
   \<and> map authorization
         (fetches (events (snd (apiCall unauthorized ME no_options (window [] empty_token))))) =
       [None]"
  by code_simp




section \<open>The credential store\<close>

text \<open>
  C9. \<open>saveToken(access, refresh)\<close> with a falsy \<open>refresh\<close> stores the access token
  (its string form; the string itself for a string) and leaves the refresh slot as it
  was; with a truthy \<open>refresh\<close> the slot is written. So the slot is written only when
  \<open>refresh\<close> is truthy.
\<close>

theorem saveToken_falsy_refresh:
  "(\<not> truthy refresh \<longrightarrow>
      storage (saveToken access refresh w) TOKEN_KEY = Some (to_string access)
      \<and> storage (saveToken access refresh w) ''refresh_token'' = storage w ''refresh_token'')
   \<and> (truthy refresh \<longrightarrow>
      storage (saveToken access refresh w) ''refresh_token'' = Some (to_string refresh))
   \<and> storage (saveToken (JStr a) refresh w) TOKEN_KEY = Some a"
  by (simp add: saveToken_def setItem_def TOKEN_KEY_def Let_def)

text \<open>
  At a signed-in window: a new access token with \<open>undefined\<close> for \<open>refresh\<close> keeps
  \<open>R1\<close>, and with \<open>R2\<close> replaces it.
\<close>

theorem saveToken_falsy_refresh_witness:
  "\<not> truthy JUndefined
   \<and> storage (saveToken (JStr ''T2'') JUndefined (window [] signed_in)) TOKEN_KEY = Some ''T2''
   \<and> storage (saveToken (JStr ''T2'') JUndefined (window [] signed_in)) ''refresh_token'' = Some ''R1''
   \<and> truthy (JStr ''R2'')
   \<and> storage (saveToken (JStr ''T2'') (JStr ''R2'') (window [] signed_in)) ''refresh_token'' = Some ''R2''"
  using saveToken_falsy_refresh [of JUndefined "JStr ''T2''" "window [] signed_in" "''T2''"]
    saveToken_falsy_refresh [of "JStr ''R2''" "JStr ''T2''" "window [] signed_in" "''T2''"]
  by (simp add: window_def signed_in_def TOKEN_KEY_def)

section \<open>The dashboard\<close>






section \<open>The protected pages\<close>

text \<open>
  C2. The claim: when a call awaited in the initialization of a protected page throws an
  error whose message contains \<open>401\<close>, the tokens are removed and the page goes to the
  entry page, once, whichever step threw. The handler of \<open>init\<close> would do that, but no
  failed call reaches it: every step catches the errors of its own calls, and the errors
  that do escape a step (a missing element) have no \<open>401\<close> in their message. A server
  that answers \<open>401 Unauthorized\<close> makes every call throw an error that contains
  \<open>401\<close>; yet for every network, every page and every rendering, both modules leave
  the storage as it was, the dashboard navigates nowhere but where the check at its top
  sent it, and the detail page never goes to \<open>index.html\<close> but from that check.
\<close>

theorem init_never_logs_out:
  "fst (apiCall unauthorized u no_options w) = Inl (JsError ''Error'' ''401 Unauthorized'')
   \<and> str_includes (message (JsError ''Error'' ''401 Unauthorized'')) ''401''
   \<and> storage (dashboard_js net w) = storage w
   \<and> navigations (events (dashboard_js net w)) =
       navigations (events w) @ (if isAuthenticated w then [] else [''index.html''])
   \<and> storage (portfolio_js net render i w) = storage w
   \<and> filter (\<lambda>u. u = ''index.html'') (navigations (events (portfolio_js net render i w))) =
       filter (\<lambda>u. u = ''index.html'') (navigations (events w))
         @ (if isAuthenticated w then [] else [''index.html''])"
proof -
  have a: "fst (apiCall unauthorized u no_options w) = Inl (JsError ''Error'' ''401 Unauthorized'')"
    by (simp add: unauthorized_call)
  have b: "str_includes (message (JsError ''Error'' ''401 Unauthorized'')) ''401''"
    by code_simp
  let ?w1 = "if \<not> isAuthenticated w then navigate ''index.html'' w else w"
  have w1: "storage ?w1 = storage w"
    "navigations (events ?w1) =
       navigations (events w) @ (if isAuthenticated w then [] else [''index.html''])"
    by (simp_all add: navigate_fields navigations_append)
  let ?d = "world.extend ?w1 \<lparr>portfolios = JArr [], currentUser = JNull\<rparr>"
  from tameD [OF tame_dashboard_init, of net ?d] obtain es where
    ds: "storage (snd (dashboard_init net ?d)) = storage ?d"
    and de: "events (snd (dashboard_init net ?d)) = events ?d @ es" "navigations es = []"
    by auto
  have c: "storage (dashboard_js net w) = storage w"
    using ds w1(1) by (simp add: dashboard_js_def Let_def extend_fields)
  have d: "navigations (events (dashboard_js net w)) =
       navigations (events w) @ (if isAuthenticated w then [] else [''index.html''])"
    using de w1(2) by (simp add: dashboard_js_def Let_def extend_fields navigations_append)
  let ?p = "world.extend ?w1
              \<lparr>portfolioId = url_param i, portfolio = JNull, holdings = JArr [],
               searchTimeout = None\<rparr>"
  let ?p3 = "if \<not> truthy (portfolioId ?p) then navigate ''dashboard.html'' ?p else ?p"
  have p3: "storage ?p3 = storage w"
    "filter (\<lambda>u. u = ''index.html'') (navigations (events ?p3)) =
       filter (\<lambda>u. u = ''index.html'') (navigations (events w))
         @ (if isAuthenticated w then [] else [''index.html''])"
    using w1 by (simp_all add: navigate_fields navigations_append extend_fields)
  from tameD [OF tame_portfolio_init, of net render ?p3] obtain es' where
    ps: "storage (snd (portfolio_init net render ?p3)) = storage ?p3"
    and pe: "events (snd (portfolio_init net render ?p3)) = events ?p3 @ es'"
      "set (navigations es') \<subseteq> {''dashboard.html''}"
    by auto
  have none: "filter (\<lambda>u. u = ''index.html'') (navigations es') = []"
    by (rule subset_singleton_filter [OF pe(2)]) simp
  have pj: "portfolio_js net render i w = snd (portfolio_init net render ?p3)"
    by (simp add: portfolio_js_def Let_def)
  have e: "storage (portfolio_js net render i w) = storage w"
    using ps p3(1) by (simp only: pj)
  have f: "filter (\<lambda>u. u = ''index.html'') (navigations (events (portfolio_js net render i w))) =
       filter (\<lambda>u. u = ''index.html'') (navigations (events w))
         @ (if isAuthenticated w then [] else [''index.html''])"
    using p3(2) none by (simp only: pj pe(1) navigations_append filter_append) simp
  from a b c d e f show ?thesis by blast
qed

text \<open>
  C5. The claim: when the store holds no access token, the page goes to the entry page
  and issues no fetch, before or after. The check at the top of each module sets the
  address and the module runs on to \<open>init()\<close>: for every network, right after the
  navigation to \<open>index.html\<close> (and, on the detail page, the one to \<open>dashboard.html\<close> when
  the address has no \<open>id\<close>) the request for the current user is issued, without an
  \<open>Authorization\<close> header.
\<close>

theorem unauthenticated_load_fetches:
  assumes "\<not> isAuthenticated w"
  shows "authorization (make_request w ME no_options) = None
     \<and> (\<exists>rest. events (dashboard_js net w) =
            events w @ Navigate ''index.html'' # Fetch (make_request w ME no_options) # rest)
     \<and> (\<exists>rest. events (portfolio_js net render i w) =
            events w @ Navigate ''index.html'' #
              (if truthy (url_param i) then [] else [Navigate ''dashboard.html''])
              @ Fetch (make_request w ME no_options) # rest)"
proof -
  let ?w1 = "navigate ''index.html'' w"
  let ?d = "world.extend ?w1 \<lparr>portfolios = JArr [], currentUser = JNull\<rparr>"
  have rq: "make_request ?d ME no_options = make_request w ME no_options"
    by (rule make_request_storage) (simp add: extend_fields navigate_fields)
  from head_dashboard_init [of net ?d] obtain es where
    "events (snd (dashboard_init net ?d)) = events ?d @ Fetch (make_request ?d ME no_options) # es"
    by blast
  then have "events (dashboard_js net w) =
      events w @ Navigate ''index.html'' # Fetch (make_request w ME no_options) # es"
    using assms by (simp add: dashboard_js_def Let_def rq extend_fields navigate_fields)
  then have a: "\<exists>rest. events (dashboard_js net w) =
            events w @ Navigate ''index.html'' # Fetch (make_request w ME no_options) # rest"
    by blast
  let ?p = "world.extend ?w1
              \<lparr>portfolioId = url_param i, portfolio = JNull, holdings = JArr [],
               searchTimeout = None\<rparr>"
  let ?p3 = "if \<not> truthy (portfolioId ?p) then navigate ''dashboard.html'' ?p else ?p"
  have pid: "portfolioId ?p = url_param i"
    by (simp add: world.defs)
  have rq3: "make_request ?p3 ME no_options = make_request w ME no_options"
    by (rule make_request_storage) (simp add: extend_fields navigate_fields)
  have ev3: "events ?p3 = events w @ Navigate ''index.html'' #
              (if truthy (url_param i) then [] else [Navigate ''dashboard.html''])"
    by (simp add: pid extend_fields navigate_fields)
  from head_portfolio_init [of net render ?p3] obtain es' where
    "events (snd (portfolio_init net render ?p3)) =
       events ?p3 @ Fetch (make_request ?p3 ME no_options) # es'"
    by blast
  moreover have "portfolio_js net render i w = snd (portfolio_init net render ?p3)"
    using assms by (simp add: portfolio_js_def Let_def)
  ultimately have "events (portfolio_js net render i w) =
            events w @ Navigate ''index.html'' #
              (if truthy (url_param i) then [] else [Navigate ''dashboard.html''])
              @ Fetch (make_request w ME no_options) # es'"
    by (simp only: rq3 ev3) simp
  then have b: "\<exists>rest. events (portfolio_js net render i w) =
            events w @ Navigate ''index.html'' #
              (if truthy (url_param i) then [] else [Navigate ''dashboard.html''])
              @ Fetch (make_request w ME no_options) # rest"
    by blast
  from a b unauthenticated_request [OF assms] show ?thesis by blast
qed

text \<open>
  A first visit, with nothing stored: on both pages the events start with the navigation
  to \<open>index.html\<close> and the request to \<open>/api/auth/me\<close>.
\<close>

theorem unauthenticated_load_fetches_witness:
  "\<not> isAuthenticated (window dashboard_html Map.empty)
   \<and> (\<exists>rest. events (dashboard_js unauthorized (window dashboard_html Map.empty)) =
          Navigate ''index.html'' #
          Fetch \<lparr>url = ''http://localhost:8000/api/auth/me'', req_method = None,
                 req_headers = [(''Content-Type'', ''application/json'')], req_body = None\<rparr> # rest)
   \<and> (\<exists>rest. events (portfolio_js unauthorized render_nothing (Some ''7'')
                      (window portfolio_html Map.empty)) =
          Navigate ''index.html'' #
          Fetch \<lparr>url = ''http://localhost:8000/api/auth/me'', req_method = None,
                 req_headers = [(''Content-Type'', ''application/json'')], req_body = None\<rparr> # rest)"
proof -
  have out: "\<not> isAuthenticated (window dashboard_html Map.empty)"
    "\<not> isAuthenticated (window portfolio_html Map.empty)"
    by code_simp+
  have rq: "make_request (window dashboard_html Map.empty) ME no_options =
      \<lparr>url = ''http://localhost:8000/api/auth/me'', req_method = None,
       req_headers = [(''Content-Type'', ''application/json'')], req_body = None\<rparr>"
    "make_request (window portfolio_html Map.empty) ME no_options =
      \<lparr>url = ''http://localhost:8000/api/auth/me'', req_method = None,
       req_headers = [(''Content-Type'', ''application/json'')], req_body = None\<rparr>"
    by code_simp+
  have ev: "events (window dashboard_html Map.empty) = []" "events (window portfolio_html Map.empty) = []"
    "truthy (url_param (Some ''7''))"
    by code_simp+
  from unauthenticated_load_fetches [OF out(1), of unauthorized render_nothing "Some ''7''"]
    unauthenticated_load_fetches [OF out(2), of unauthorized render_nothing "Some ''7''"]
    out(1)
  show ?thesis
    by (simp only: rq ev) simp
qed

section \<open>The entry page\<close>

text \<open>
  C10. When the form is submitted with a password of fewer than 8 characters, the
  handler leaves the events as they were, so no request is issued; it leaves the storage
  and the timers as they were; and, on a page that has the other three fields and the
  message element, it returns with the message \<open>Password must be at least 8
  characters\<close> shown as an error.
\<close>

theorem register_short_password:
  assumes "getElementById ''registerPassword'' w = Some p" and "length (el_value p) < 8"
  shows "events (snd (register_submit net w)) = events w
     \<and> storage (snd (register_submit net w)) = storage w
     \<and> timers (snd (register_submit net w)) = timers w
     \<and> (getElementById ''registerEmail'' w \<noteq> None \<and> getElementById ''registerUsername'' w \<noteq> None
          \<and> getElementById ''registerFullName'' w \<noteq> None \<longrightarrow>
          (\<forall>m. getElementById ''message'' w = Some m \<longrightarrow>
             fst (register_submit net w) = Inr ()
             \<and> getElementById ''message'' (snd (register_submit net w)) =
                 Some (m\<lparr>content := Text ''Password must be at least 8 characters'',
                         classes := [''message'', ''error'']\<rparr>)))"
proof -
  let ?show = "showMessage ''Password must be at least 8 characters'' ''error''"
  have "register_submit net w = ?show w \<or> (\<exists>e. register_submit net w = (Inl e, w))"
    using assms
    by (simp add: register_submit_def js_bind_input split: option.splits)
  moreover have "register_submit net w = ?show w"
    if "getElementById ''registerEmail'' w \<noteq> None" "getElementById ''registerUsername'' w \<noteq> None"
       "getElementById ''registerFullName'' w \<noteq> None"
    using assms that
    by (auto simp add: register_submit_def js_bind_input split: option.splits)
  ultimately show ?thesis
    using showMessage_frame [of "''Password must be at least 8 characters''" "''error''" w]
      showMessage_shown [of w _ "''Password must be at least 8 characters''" "''error''"]
    by auto
qed

text \<open>The entry page with the password \<open>pw12345\<close>: no event, and the message shown.\<close>

theorem register_short_password_witness:
  "events (snd (register_submit coin_server (window auth_html Map.empty))) = []
   \<and> storage (snd (register_submit coin_server (window auth_html Map.empty))) ''access_token'' = None
   \<and> map_option content
        (getElementById ''message'' (snd (register_submit coin_server (window auth_html Map.empty)))) =
       Some (Text ''Password must be at least 8 characters'')"
proof -
  let ?w = "window auth_html Map.empty"
  have p: "getElementById ''registerPassword'' ?w = Some ((el ''registerPassword'')\<lparr>el_value := ''pw12345''\<rparr>)"
    and short: "length (el_value ((el ''registerPassword'')\<lparr>el_value := ''pw12345''\<rparr>)) < 8"
    and others: "getElementById ''registerEmail'' ?w \<noteq> None"
      "getElementById ''registerUsername'' ?w \<noteq> None"
      "getElementById ''registerFullName'' ?w \<noteq> None"
    and m: "getElementById ''message'' ?w = Some (el ''message'')"
    and e: "events ?w = []" and st: "storage ?w ''access_token'' = None"
    by code_simp+
  from register_short_password [OF p short, of coin_server] others m e st show ?thesis
    by simp
qed

section \<open>The detail page\<close>

text \<open>
  C7. With the listener's timers in order: a keystroke that leaves at least two
  characters after trimming cancels the pending search and leaves exactly one, due 300
  milliseconds later, for the trimmed text; a keystroke that leaves fewer cancels the
  pending search, schedules none, issues no request and takes \<open>show\<close> off the results.
  On a page with no pending timer, after a burst of keystrokes (each less than 300
  milliseconds after the one before) and a wait of 300 milliseconds or more after the
  last, the requests issued are the one search for the last text when it has at least
  two characters after trimming, and none otherwise.
\<close>

theorem debounced_search:
  "(scheduled w \<and> 2 \<le> length (trim s) \<longrightarrow>
      timers (snd (coinSearch_input s w)) =
        [\<lparr>timer_id = next_timer w, due = now w + 300, callback = SearchCoins (trim s)\<rparr>]
      \<and> events (snd (coinSearch_input s w)) = events w)
   \<and> (scheduled w \<and> length (trim s) < 2 \<longrightarrow>
      timers (snd (coinSearch_input s w)) = []
      \<and> events (snd (coinSearch_input s w)) = events w
      \<and> (\<forall>r. getElementById ''coinSearchResults'' w = Some r \<longrightarrow>
            getElementById ''coinSearchResults'' (snd (coinSearch_input s w)) =
              Some (r\<lparr>classes := removeAll ''show'' (classes r)\<rparr>)))
   \<and> (timers w = [] \<and> now w \<le> t \<and> burst t ks \<and> last ((t, s) # ks) = (tn, sn) \<and> tn + 300 \<le> T \<longrightarrow>
      fetches (events (advance net T (type_all net ((t, s) # ks) w))) =
        fetches (events w) @
          (if 2 \<le> length (trim sn) then [make_request w (search_url (trim sn)) no_options]
           else []))"
proof (intro conjI impI)
  assume a: "scheduled w \<and> 2 \<le> length (trim s)"
  then have eq: "coinSearch_input s w =
     (Inr (), w\<lparr>timers := [\<lparr>timer_id = next_timer w, due = now w + 300,
                             callback = SearchCoins (trim s)\<rparr>],
               next_timer := Suc (next_timer w), searchTimeout := Some (next_timer w)\<rparr>)"
    using input_long by blast
  show "timers (snd (coinSearch_input s w)) =
        [\<lparr>timer_id = next_timer w, due = now w + 300, callback = SearchCoins (trim s)\<rparr>]"
    by (simp add: eq)
  show "events (snd (coinSearch_input s w)) = events w"
    by (simp add: eq)
next
  assume a: "scheduled w \<and> length (trim s) < 2"
  then have eq: "coinSearch_input s w =
      classList_remove ''coinSearchResults'' ''show'' (w\<lparr>timers := []\<rparr>)"
    using input_short by blast
  show "timers (snd (coinSearch_input s w)) = []"
    by (simp add: eq classList_remove_frame)
  show "events (snd (coinSearch_input s w)) = events w"
    by (simp add: eq classList_remove_frame)
  show "\<forall>r. getElementById ''coinSearchResults'' w = Some r \<longrightarrow>
            getElementById ''coinSearchResults'' (snd (coinSearch_input s w)) =
              Some (r\<lparr>classes := removeAll ''show'' (classes r)\<rparr>)"
  proof (intro allI impI)
    fix r
    assume "getElementById ''coinSearchResults'' w = Some r"
    then have "getElementById ''coinSearchResults'' (w\<lparr>timers := []\<rparr>) = Some r"
      by (simp add: getElementById_def)
    then show "getElementById ''coinSearchResults'' (snd (coinSearch_input s w)) =
              Some (r\<lparr>classes := removeAll ''show'' (classes r)\<rparr>)"
      by (simp add: eq classList_remove_get)
  qed
next
  assume a: "timers w = [] \<and> now w \<le> t \<and> burst t ks \<and> last ((t, s) # ks) = (tn, sn) \<and> tn + 300 \<le> T"
  then have sch: "scheduled w" and idle: "\<forall>x \<in> set (timers w). t < due x"
    by (simp_all add: scheduled_def)
  from a have now: "now w \<le> t" by simp
  note first = type_at_typed [OF sch idle now, where net = net and s = s]
  from a have b: "burst t ks" and l: "last ((t, s) # ks) = (tn, sn)" and T: "tn + 300 \<le> T"
    by simp_all
  note all = burst_typed [OF first(1) b l, where net = net]
  from all have typed: "typed tn sn (type_all net ks (type_at net t s w))" by simp
  have st: "storage (type_all net ks (type_at net t s w)) = storage w"
    using all first(3) by simp
  have ev: "fetches (events (type_all net ks (type_at net t s w))) = fetches (events w)"
    using all first(2) by simp
  show "fetches (events (advance net T (type_all net ((t, s) # ks) w))) =
        fetches (events w) @
          (if 2 \<le> length (trim sn) then [make_request w (search_url (trim sn)) no_options]
           else [])"
    using typed_advance [OF typed T, where net = net] make_request_storage [OF st]
    by (simp add: ev)
qed

text \<open>
  Typing \<open>b\<close>, \<open>bt\<close>, \<open>btc\<close> at 0, 100 and 200 milliseconds and waiting until 500
  issues one request, the search for \<open>btc\<close>; typing \<open>b\<close> and waiting issues none.
\<close>

theorem debounced_search_witness:
  "map url (fetches (events (advance coin_server 500
       (type_all coin_server [(0, ''b''), (100, ''bt''), (200, ''btc'')] detail_page)))) =
     [''http://localhost:8000/api/coins/search?query=btc'']
   \<and> fetches (events (advance coin_server 400 (type_all coin_server [(0, ''b'')] detail_page))) = []
   \<and> timers (snd (coinSearch_input ''bt'' detail_page)) =
       [\<lparr>timer_id = 1, due = 300, callback = SearchCoins ''bt''\<rparr>]
   \<and> timers (snd (coinSearch_input '' b '' detail_page)) = []"
proof -
  have page: "timers detail_page = []" "now detail_page = 0" "next_timer detail_page = 1"
    "fetches (events detail_page) = []" "scheduled detail_page"
    by (simp_all add: detail_page_def window_def scheduled_def world.defs)
  have trims: "trim ''btc'' = ''btc''" "trim ''bt'' = ''bt''" "trim ''b'' = ''b''" "trim '' b '' = ''b''"
    by code_simp+
  have u: "url (make_request detail_page (search_url ''btc'') no_options) =
             ''http://localhost:8000/api/coins/search?query=btc''"
    by code_simp
  have "fetches (events (advance coin_server 500
       (type_all coin_server [(0, ''b''), (100, ''bt''), (200, ''btc'')] detail_page))) =
     [make_request detail_page (search_url ''btc'') no_options]"
    using debounced_search [of detail_page "''b''" 0 "[(100, ''bt''), (200, ''btc'')]" 200 "''btc''"
        500 coin_server] page
    by (simp add: trims)
  then have a: "map url (fetches (events (advance coin_server 500
       (type_all coin_server [(0, ''b''), (100, ''bt''), (200, ''btc'')] detail_page)))) =
     [''http://localhost:8000/api/coins/search?query=btc'']"
    by (simp add: u)
  have b: "fetches (events (advance coin_server 400 (type_all coin_server [(0, ''b'')] detail_page))) = []"
    using debounced_search [of detail_page "''b''" 0 "[]" 0 "''b''" 400 coin_server] page
    by (simp add: trims)
  have c: "timers (snd (coinSearch_input ''bt'' detail_page)) =
       [\<lparr>timer_id = 1, due = 300, callback = SearchCoins ''bt''\<rparr>]"
    using debounced_search [of detail_page "''bt''" 0 "[]" 0 "''bt''" 400 coin_server] page
    by (simp add: trims)
  have d: "timers (snd (coinSearch_input '' b '' detail_page)) = []"
    using debounced_search [of detail_page "'' b ''" 0 "[]" 0 "'' b ''" 400 coin_server] page
    by (simp add: trims)
  from a b c d show ?thesis by simp
qed

end
